theory Spec2Isabelle
  imports Complex_Main "HOL-Library.Log_Nat"
begin

section \<open>Python values used by the evaluation engine\<close>

subsection \<open>Floats: IEEE 754 binary64 with round-to-nearest, ties-to-even\<close>

text \<open>
  A Python \<^verbatim>\<open>float\<close> is a binary64 number. A finite one is modelled by the rational it
  denotes; the sign of zero is not modelled (no operation below observes it).
\<close>

datatype pyfloat = Finite rat | PosInf | NegInf | NaN

text \<open>\<open>expo x\<close> is the binary exponent of a positive rational:
  \<open>2 powi expo x \<le> x < 2 powi (expo x + 1)\<close>.\<close>

definition expo :: "rat \<Rightarrow> int" where
  "expo x = (if 1 \<le> x then bitlen \<lfloor>x\<rfloor> - 1 else - bitlen (\<lceil>1 / x\<rceil> - 1))"

text \<open>Rounding a rational to the nearest integer, a tie going to the even neighbour.\<close>

definition rne :: "rat \<Rightarrow> int" where
  "rne z = (let f = \<lfloor>z\<rfloor>; r = z - of_int f in
     if r < 1 / 2 then f else if 1 / 2 < r then f + 1 else if even f then f else f + 1)"

text \<open>The exponent of the unit in the last place: 53 significant bits, and never below
  the subnormal spacing \<open>2 powi - 1074\<close>.\<close>

definition quantum :: "rat \<Rightarrow> int" where
  "quantum x = max (expo x - 52) (- 1074)"

definition round_pos :: "rat \<Rightarrow> rat" where
  "round_pos x = of_int (rne (x / 2 powi quantum x)) * 2 powi quantum x"

text \<open>\<open>fl x\<close> is the binary64 number nearest to \<open>x\<close>, the exponent range unbounded above.\<close>

definition fl :: "rat \<Rightarrow> rat" where
  "fl x = (if x = 0 then 0 else if 0 < x then round_pos x else - round_pos (- x))"

text \<open>The result of a float operation whose exact value is \<open>x\<close>: rounded, and infinite
  when the rounded magnitude reaches \<open>2 powi 1024\<close>.\<close>

definition to_double :: "rat \<Rightarrow> pyfloat" where
  "to_double x = (let y = fl x in
     if 2 powi 1024 \<le> y then PosInf
     else if y \<le> - (2 powi 1024) then NegInf
     else Finite y)"

text \<open>A finite float value is one that rounding leaves alone, below the overflow bound.\<close>

fun is_double :: "pyfloat \<Rightarrow> bool" where
  "is_double (Finite q) = (fl q = q \<and> \<bar>q\<bar> < 2 powi 1024)"
| "is_double _ = True"

subsection \<open>Exceptions and numbers\<close>

datatype error =
    ValueError
  | OverflowError
  | ZeroDivisionError
  | AttributeError
  | UnboundLocalError
  | IndexError
  | UnknownMetricError
  | MetricFailure string

datatype pynum = PyInt int | PyFloat pyfloat

fun is_pynum :: "pynum \<Rightarrow> bool" where
  "is_pynum (PyInt i) = True"
| "is_pynum (PyFloat f) = is_double f"

text \<open>Sequencing of computations that may raise.\<close>

fun or_raise :: "error + 'a \<Rightarrow> ('a \<Rightarrow> error + 'b) \<Rightarrow> error + 'b" where
  "or_raise (Inl e) f = Inl e"
| "or_raise (Inr x) f = f x"

text \<open>\<^verbatim>\<open>float(i)\<close> for an int, as the mixed int/float operators convert their int operand:
  correctly rounded, \<^verbatim>\<open>OverflowError\<close> when the int is too large.\<close>

definition float_of_int :: "int \<Rightarrow> error + pyfloat" where
  "float_of_int i = (case to_double (of_int i) of
       Finite y \<Rightarrow> Inr (Finite y)
     | _ \<Rightarrow> Inl OverflowError)"

fun as_float :: "pynum \<Rightarrow> error + pyfloat" where
  "as_float (PyInt i) = float_of_int i"
| "as_float (PyFloat f) = Inr f"

text \<open>\<^verbatim>\<open>a / b\<close> on floats.\<close>

fun float_truediv :: "pyfloat \<Rightarrow> pyfloat \<Rightarrow> error + pyfloat" where
  "float_truediv a (Finite y) =
     (if y = 0 then Inl ZeroDivisionError
      else case a of
          Finite x \<Rightarrow> Inr (to_double (x / y))
        | PosInf \<Rightarrow> Inr (if 0 < y then PosInf else NegInf)
        | NegInf \<Rightarrow> Inr (if 0 < y then NegInf else PosInf)
        | NaN \<Rightarrow> Inr NaN)"
| "float_truediv (Finite x) PosInf = Inr (Finite 0)"
| "float_truediv (Finite x) NegInf = Inr (Finite 0)"
| "float_truediv a b = Inr NaN"

text \<open>\<^verbatim>\<open>a * b\<close> on floats.\<close>

fun float_mul :: "pyfloat \<Rightarrow> pyfloat \<Rightarrow> pyfloat" where
  "float_mul (Finite x) (Finite y) = to_double (x * y)"
| "float_mul (Finite x) PosInf = (if x = 0 then NaN else if 0 < x then PosInf else NegInf)"
| "float_mul (Finite x) NegInf = (if x = 0 then NaN else if 0 < x then NegInf else PosInf)"
| "float_mul PosInf (Finite y) = (if y = 0 then NaN else if 0 < y then PosInf else NegInf)"
| "float_mul NegInf (Finite y) = (if y = 0 then NaN else if 0 < y then NegInf else PosInf)"
| "float_mul PosInf PosInf = PosInf"
| "float_mul PosInf NegInf = NegInf"
| "float_mul NegInf PosInf = NegInf"
| "float_mul NegInf NegInf = PosInf"
| "float_mul a b = NaN"

text \<open>\<^verbatim>\<open>int(f)\<close>: truncation toward zero; an infinity raises \<^verbatim>\<open>OverflowError\<close>, a NaN
  \<^verbatim>\<open>ValueError\<close>.\<close>

definition trunc :: "rat \<Rightarrow> int" where
  "trunc q = (if 0 \<le> q then \<lfloor>q\<rfloor> else \<lceil>q\<rceil>)"

fun py_int :: "pyfloat \<Rightarrow> error + int" where
  "py_int (Finite q) = Inr (trunc q)"
| "py_int PosInf = Inl OverflowError"
| "py_int NegInf = Inl OverflowError"
| "py_int NaN = Inl ValueError"

text \<open>\<^verbatim>\<open>x < c\<close> for an int \<open>x\<close>: Python compares an int with a float exactly, and every
  comparison with a NaN is false.\<close>

fun int_lt :: "int \<Rightarrow> pynum \<Rightarrow> bool" where
  "int_lt x (PyInt k) = (x < k)"
| "int_lt x (PyFloat (Finite q)) = (of_int x < q)"
| "int_lt x (PyFloat PosInf) = True"
| "int_lt x (PyFloat NegInf) = False"
| "int_lt x (PyFloat NaN) = False"

text \<open>\<^verbatim>\<open>a < b\<close> between two numbers.\<close>

fun num_lt :: "pynum \<Rightarrow> pynum \<Rightarrow> bool" where
  "num_lt (PyInt i) b = int_lt i b"
| "num_lt (PyFloat (Finite q)) (PyInt k) = (q < of_int k)"
| "num_lt (PyFloat (Finite q)) (PyFloat (Finite r)) = (q < r)"
| "num_lt (PyFloat (Finite q)) (PyFloat PosInf) = True"
| "num_lt (PyFloat NegInf) (PyInt k) = True"
| "num_lt (PyFloat NegInf) (PyFloat (Finite r)) = True"
| "num_lt (PyFloat NegInf) (PyFloat PosInf) = True"
| "num_lt a b = False"

section \<open>The threshold binarizer\<close>

text \<open>
  \<^verbatim>\<open>generate_binary_at_x(test_predictions, x_value, unit='top_n')\<close>:
  for the unit \<^verbatim>\<open>'percentile'\<close> the cutoff index is
  \<^verbatim>\<open>int(len(test_predictions) * (x_value / 100.00))\<close>, computed in floats; for every other
  unit it is \<^verbatim>\<open>x_value\<close> itself. Position \<open>x\<close> of the result is 1 when
  \<^verbatim>\<open>x < cutoff_index\<close> and 0 otherwise.
\<close>

definition cutoff_index :: "nat \<Rightarrow> pynum \<Rightarrow> string \<Rightarrow> error + pynum" where
  "cutoff_index n x_value unit =
     (if unit = ''percentile''
      then or_raise (as_float x_value) (\<lambda>x.
           or_raise (float_truediv x (Finite 100)) (\<lambda>d.
           or_raise (float_of_int (int n)) (\<lambda>l.
           or_raise (py_int (float_mul l d)) (\<lambda>k. Inr (PyInt k)))))
      else Inr x_value)"

definition generate_binary_at_x :: "'a list \<Rightarrow> pynum \<Rightarrow> string \<Rightarrow> error + int list" where
  "generate_binary_at_x test_predictions x_value unit =
     or_raise (cutoff_index (length test_predictions) x_value unit) (\<lambda>c.
       Inr (map (\<lambda>x. if int_lt (int x) c then 1 else 0) [0..<length test_predictions]))"

text \<open>The positions of a binary vector that carry a 1, and the vector of length \<open>n\<close> whose
  first \<open>k\<close> positions carry a 1 and whose other positions carry a 0.\<close>

definition marked :: "int list \<Rightarrow> nat set" where
  "marked b = {i. i < length b \<and> b ! i = 1}"

text \<open>A percentile of the data model: a number in \<open>(0, 100]\<close>.\<close>

fun is_percentile :: "pynum \<Rightarrow> bool" where
  "is_percentile (PyInt i) = (0 < i \<and> i \<le> 100)"
| "is_percentile (PyFloat (Finite q)) = (0 < q \<and> q \<le> 100)"
| "is_percentile (PyFloat f) = False"

definition first_k_ones :: "nat \<Rightarrow> int \<Rightarrow> int list" where
  "first_k_ones n k = replicate (min (nat k) n) 1 @ replicate (n - nat k) 0"

section \<open>The metric registry\<close>

text \<open>
  A parameter combination and a threshold descriptor are dicts; they are association lists
  in insertion order, as \<^verbatim>\<open>dict.items()\<close> iterates them.
\<close>

type_synonym params = "(string \<times> pynum) list"

text \<open>
  A scoring function is called as
  \<^verbatim>\<open>f(predictions_proba, predictions_binary, labels, parameters)\<close> and returns a number or
  raises. The continuous scores are \<^verbatim>\<open>None\<close> in the thresholded calls.
\<close>

type_synonym metric_fn =
  "pyfloat list option \<Rightarrow> int list \<Rightarrow> pyfloat list \<Rightarrow> params \<Rightarrow> error + pyfloat"

text \<open>The Python values an attribute of a function object may hold.\<close>

datatype pyval = PyNone | PyBool bool | PyNum pynum | PyStr string

text \<open>
  A function object of the registry: what calling it computes, and its
  \<^verbatim>\<open>greater_is_better\<close> attribute (\<open>None\<close> when \<^verbatim>\<open>hasattr\<close> is false).
\<close>

record metric_obj =
  call :: metric_fn
  greater_is_better :: "pyval option"

text \<open>
  \<^verbatim>\<open>v == True\<close> and \<^verbatim>\<open>v == False\<close>: a bool is the int 1 or 0 in every numeric comparison, so
  the ints and floats 1 and 0 compare equal to \<^verbatim>\<open>True\<close> and \<^verbatim>\<open>False\<close>.
\<close>

fun py_eq_bool :: "pyval \<Rightarrow> bool \<Rightarrow> bool" where
  "py_eq_bool (PyBool b) t = (b = t)"
| "py_eq_bool (PyNum (PyInt i)) t = (i = (if t then 1 else 0))"
| "py_eq_bool (PyNum (PyFloat (Finite q))) t = (q = (if t then 1 else 0))"
| "py_eq_bool v t = False"

text \<open>\<^verbatim>\<open>v in (True, False)\<close>: membership in a tuple compares with \<^verbatim>\<open>==\<close>.\<close>

definition in_True_False :: "pyval \<Rightarrow> bool" where
  "in_True_False v = (py_eq_bool v True \<or> py_eq_bool v False)"

text \<open>
  \<^verbatim>\<open>_validate_metrics(custom_metrics)\<close>: the first function without the attribute, or with
  an attribute that is \<^verbatim>\<open>not in (True, False)\<close>, raises \<^verbatim>\<open>ValueError\<close>.
\<close>

fun validate_metrics :: "(string \<times> metric_obj) list \<Rightarrow> error + unit" where
  "validate_metrics [] = Inr ()"
| "validate_metrics ((name, met) # rest) =
     (case greater_is_better met of
        None \<Rightarrow> Inl ValueError
      | Some v \<Rightarrow> if \<not> in_True_False v then Inl ValueError else validate_metrics rest)"

section \<open>The evaluator and the state it shares\<close>

datatype table_class = TrainEvaluation | TestEvaluation

type_synonym datetime = int

text \<open>
  An evaluation record: an ORM object of one of the two table classes. The constructor call
  of \<^verbatim>\<open>_generate_evaluations\<close> sets the first seven attributes; the key columns are unset
  (\<open>None\<close>) until \<^verbatim>\<open>_write_to_db\<close> stamps them.
\<close>

record evaluation =
  row_class :: table_class
  metric :: string
  parameter :: string
  metric_value :: pyfloat
  num_labeled_examples :: nat
  num_labeled_above_threshold :: nat
  num_positive_labels :: nat
  row_sort_seed :: int
  model_id :: "int option"
  evaluation_start_time :: "datetime option"
  evaluation_end_time :: "datetime option"
  as_of_date_frequency :: "string option"

text \<open>
  The state outside any one evaluator: the class attribute
  \<^verbatim>\<open>ModelEvaluator.available_metrics\<close>, one dict shared by all instances, and the two
  evaluation tables of the database.
\<close>

record world =
  available_metrics :: "string \<rightharpoonup> metric_obj"
  train_evaluations :: "evaluation list"
  test_evaluations :: "evaluation list"

record thresholds_config =
  percentiles :: "pynum list"
  top_n :: "pynum list"

text \<open>
  A metric group of the configuration. \<open>parameters\<close> and \<open>thresholds\<close> are \<open>None\<close> when
  the key is absent; an absent \<^verbatim>\<open>'percentiles'\<close> or \<^verbatim>\<open>'top_n'\<close> key is the empty list, which is
  what \<^verbatim>\<open>.get(key, [])\<close> makes of it.
\<close>

record metric_group =
  metrics :: "string list"
  parameters :: "params list option"
  thresholds :: "thresholds_config option"

text \<open>
  The attributes \<^verbatim>\<open>__init__\<close> sets on the instance. \<open>db_engine\<close> tells whether a (truthy)
  engine was given, so that \<^verbatim>\<open>self.sessionmaker\<close> exists. The instance holds no registry of
  its own.
\<close>

record evaluator =
  metric_groups :: "metric_group list"
  training_metric_groups :: "metric_group list"
  db_engine :: bool
  sort_seed :: int

text \<open>\<^verbatim>\<open>self.available_metrics\<close>: the instance has no such attribute, so the lookup finds the
  class attribute.\<close>

definition self_available_metrics :: "world \<Rightarrow> evaluator \<Rightarrow> (string \<rightharpoonup> metric_obj)" where
  "self_available_metrics w self = available_metrics w"

text \<open>\<^verbatim>\<open>d.update(items)\<close> on the registry.\<close>

fun dict_update :: "('k \<rightharpoonup> 'v) \<Rightarrow> ('k \<times> 'v) list \<Rightarrow> ('k \<rightharpoonup> 'v)" where
  "dict_update d [] = d"
| "dict_update d ((k, v) # kvs) = dict_update (d(k \<mapsto> v)) kvs"

text \<open>
  \<^verbatim>\<open>ModelEvaluator.__init__(metric_groups, training_metric_groups, db_engine, sort_seed,
  custom_metrics)\<close>. \<open>now\<close> is what \<^verbatim>\<open>time.time()\<close> returns. The result is the new instance, or
  the exception raised, together with the state after the call.
\<close>

definition init ::
  "metric_group list \<Rightarrow> metric_group list \<Rightarrow> bool \<Rightarrow> int option \<Rightarrow>
   (string \<times> metric_obj) list option \<Rightarrow> rat \<Rightarrow> world \<Rightarrow> (error + evaluator) \<times> world" where
  "init mgs tmgs engine seed custom_metrics now w =
     (let self = \<lparr> metric_groups = mgs, training_metric_groups = tmgs, db_engine = engine,
                   sort_seed = (case seed of
                                  None \<Rightarrow> trunc now
                                | Some s \<Rightarrow> if s \<noteq> 0 then s else trunc now) \<rparr>
      in case custom_metrics of
           None \<Rightarrow> (Inr self, w)
         | Some cm \<Rightarrow>
             if cm = [] then (Inr self, w)
             else (case validate_metrics cm of
                     Inl e \<Rightarrow> (Inl e, w)
                   | Inr u \<Rightarrow>
                       (Inr self, w\<lparr> available_metrics := dict_update (available_metrics w) cm \<rparr>)))"

section \<open>The evaluation generator\<close>

text \<open>\<^verbatim>\<open>str.lower()\<close> on the ASCII letters; a \<open>string\<close> here is a sequence of bytes.\<close>

definition lower_char :: "char \<Rightarrow> char" where
  "lower_char c =
     (if 65 \<le> (of_char c :: nat) \<and> (of_char c :: nat) \<le> 90
      then char_of ((of_char c :: nat) + 32) else c)"

definition lower :: "string \<Rightarrow> string" where
  "lower s = map lower_char s"

text \<open>
  The table class both \<^verbatim>\<open>_generate_evaluations\<close> and \<^verbatim>\<open>_write_to_db\<close> derive from
  \<^verbatim>\<open>matrix_type\<close>: the \<^verbatim>\<open>if\<close>/\<^verbatim>\<open>elif\<close> has no \<^verbatim>\<open>else\<close>, so for any other string the local
  \<^verbatim>\<open>table_obj\<close> stays unbound (\<open>None\<close>).
\<close>

definition table_for :: "string \<Rightarrow> table_class option" where
  "table_for matrix_type =
     (if lower matrix_type = ''train'' then Some TrainEvaluation
      else if lower matrix_type = ''test'' then Some TestEvaluation
      else None)"

text \<open>\<^verbatim>\<open>full_params = parameter_combination.copy(); full_params.update(threshold_config)\<close>:
  a key already present keeps its place and takes the new value, a new key goes last.\<close>

fun params_set :: "params \<Rightarrow> string \<Rightarrow> pynum \<Rightarrow> params" where
  "params_set [] k v = [(k, v)]"
| "params_set ((k', v') # ps) k v =
     (if k' = k then (k, v) # ps else (k', v') # params_set ps k v)"

fun params_update :: "params \<Rightarrow> params \<Rightarrow> params" where
  "params_update ps [] = ps"
| "params_update ps ((k, v) # kvs) = params_update (params_set ps k v) kvs"

fun join :: "string \<Rightarrow> string list \<Rightarrow> string" where
  "join sep [] = []"
| "join sep [s] = s"
| "join sep (s # t # ss) = s @ sep @ join sep (t # ss)"

text \<open>\<^verbatim>\<open>'/'.join(['{}_{}'.format(val, key) for key, val in full_params.items()])\<close>;
  \<open>str_of\<close> is how \<^verbatim>\<open>format\<close> renders a number.\<close>

definition parameter_string :: "(pynum \<Rightarrow> string) \<Rightarrow> params \<Rightarrow> string" where
  "parameter_string str_of full_params =
     join ''/'' (map (\<lambda>(key, val). str_of val @ ''_'' @ key) full_params)"

text \<open>\<^verbatim>\<open>xs.count(1)\<close> on a list of ints and on a list of floats.\<close>

definition count_ones :: "int list \<Rightarrow> nat" where
  "count_ones xs = length (filter (\<lambda>x. x = 1) xs)"

definition count_positive :: "pyfloat list \<Rightarrow> nat" where
  "count_positive ls = length (filter (\<lambda>l. l = Finite 1) ls)"

text \<open>
  The body of the inner loop of \<^verbatim>\<open>_generate_evaluations\<close> for one metric function and one
  parameter combination: call the function, build the parameter string, pick the table
  class (an unbound \<^verbatim>\<open>table_obj\<close> raises \<^verbatim>\<open>UnboundLocalError\<close>), construct the record.
\<close>

definition make_evaluation ::
  "(pynum \<Rightarrow> string) \<Rightarrow> evaluator \<Rightarrow> string \<Rightarrow> metric_obj \<Rightarrow> params \<Rightarrow> pyfloat list option \<Rightarrow>
   int list \<Rightarrow> pyfloat list \<Rightarrow> string \<Rightarrow> params \<Rightarrow> error + evaluation" where
  "make_evaluation str_of self metric_name met threshold_config predictions_proba
      predictions_binary labels matrix_type parameter_combination =
     or_raise (call met predictions_proba predictions_binary labels parameter_combination)
       (\<lambda>v. case table_for matrix_type of
               None \<Rightarrow> Inl UnboundLocalError
             | Some table_obj \<Rightarrow>
                 Inr \<lparr> row_class = table_obj,
                       metric = metric_name,
                       parameter = parameter_string str_of
                          (params_update parameter_combination threshold_config),
                       metric_value = v,
                       num_labeled_examples = length labels,
                       num_labeled_above_threshold = count_ones predictions_binary,
                       num_positive_labels = count_positive labels,
                       row_sort_seed = sort_seed self,
                       model_id = None,
                       evaluation_start_time = None,
                       evaluation_end_time = None,
                       as_of_date_frequency = None \<rparr>)"

text \<open>Running a loop body that may raise over a list, collecting the results in order.\<close>

fun for_each :: "('a \<Rightarrow> error + 'b) \<Rightarrow> 'a list \<Rightarrow> error + 'b list" where
  "for_each f [] = Inr []"
| "for_each f (x # xs) =
     or_raise (f x) (\<lambda>y. or_raise (for_each f xs) (\<lambda>ys. Inr (y # ys)))"

text \<open>
  \<^verbatim>\<open>_generate_evaluations(metrics, parameters, threshold_config, predictions_proba,
  predictions_binary, labels, matrix_type)\<close>. For a name that is not in
  \<^verbatim>\<open>self.available_metrics\<close> the source executes \<^verbatim>\<open>raise metrics.UnknownMetricError()\<close>; in
  this method \<^verbatim>\<open>metrics\<close> is the parameter, the list of names, which hides the module of
  that name, so evaluating \<^verbatim>\<open>metrics.UnknownMetricError\<close> raises \<^verbatim>\<open>AttributeError\<close>.
\<close>

definition generate_evaluations ::
  "(pynum \<Rightarrow> string) \<Rightarrow> world \<Rightarrow> evaluator \<Rightarrow> string list \<Rightarrow> params list \<Rightarrow> params \<Rightarrow>
   pyfloat list option \<Rightarrow> int list \<Rightarrow> pyfloat list \<Rightarrow> string \<Rightarrow> error + evaluation list" where
  "generate_evaluations str_of w self metric_names parameter_list threshold_config
      predictions_proba predictions_binary labels matrix_type =
     or_raise
       (for_each
          (\<lambda>metric_name.
             case self_available_metrics w self metric_name of
               Some met \<Rightarrow>
                 for_each
                   (make_evaluation str_of self metric_name met threshold_config
                      predictions_proba predictions_binary labels matrix_type)
                   parameter_list
             | None \<Rightarrow> Inl AttributeError)
          metric_names)
       (\<lambda>per_metric. Inr (concat per_metric))"

section \<open>The persistence writer\<close>

text \<open>The rows of a table class, and a state with those rows replaced.\<close>

fun rows_of :: "table_class \<Rightarrow> world \<Rightarrow> evaluation list" where
  "rows_of TrainEvaluation w = train_evaluations w"
| "rows_of TestEvaluation w = test_evaluations w"

fun set_rows :: "table_class \<Rightarrow> evaluation list \<Rightarrow> world \<Rightarrow> world" where
  "set_rows TrainEvaluation rs w = w\<lparr> train_evaluations := rs \<rparr>"
| "set_rows TestEvaluation rs w = w\<lparr> test_evaluations := rs \<rparr>"

text \<open>The \<^verbatim>\<open>filter_by\<close> of the delete query: the four key columns equal the arguments.\<close>

definition under_key :: "int \<Rightarrow> datetime \<Rightarrow> datetime \<Rightarrow> string \<Rightarrow> evaluation \<Rightarrow> bool" where
  "under_key mid start_time end_time freq e =
     (model_id e = Some mid \<and> evaluation_start_time e = Some start_time
      \<and> evaluation_end_time e = Some end_time \<and> as_of_date_frequency e = Some freq)"

text \<open>The four assignments of the loop of \<^verbatim>\<open>_write_to_db\<close>.\<close>

definition stamp :: "int \<Rightarrow> datetime \<Rightarrow> datetime \<Rightarrow> string \<Rightarrow> evaluation \<Rightarrow> evaluation" where
  "stamp mid start_time end_time freq e =
     e\<lparr> model_id := Some mid, evaluation_start_time := Some start_time,
        evaluation_end_time := Some end_time, as_of_date_frequency := Some freq \<rparr>"

text \<open>\<^verbatim>\<open>session.add(evaluation)\<close>, committed: the row goes to the table of the object's own
  class.\<close>

definition add_row :: "evaluation \<Rightarrow> world \<Rightarrow> world" where
  "add_row e w = set_rows (row_class e) (rows_of (row_class e) w @ [e]) w"

fun add_all :: "evaluation list \<Rightarrow> world \<Rightarrow> world" where
  "add_all [] w = w"
| "add_all (e # es) w = add_all es (add_row e w)"

text \<open>
  \<^verbatim>\<open>_write_to_db(model_id, evaluation_start_time, evaluation_end_time,
  as_of_date_frequency, evaluations, matrix_type)\<close>: without an engine \<^verbatim>\<open>self.sessionmaker\<close>
  does not exist; an unbound \<^verbatim>\<open>table_obj\<close> raises at the query; otherwise the rows under the
  key are deleted from the table \<^verbatim>\<open>matrix_type\<close> names, every record is stamped and added,
  and the session commits. The state changes only at the commit.

  Modelled from the spec: \<^verbatim>\<open>db_retry\<close> (in \<^verbatim>\<open>utils\<close>) retries the call on transient
  persistence failures only. The tables here never fail, so the decorator changes nothing.
  Records are values here. A batch stands for objects no session has seen yet, which is
  what \<^verbatim>\<open>evaluate\<close> passes, having just constructed them; what a session does with an object
  that an earlier session has already persisted is not modelled.
\<close>

definition write_to_db ::
  "evaluator \<Rightarrow> int \<Rightarrow> datetime \<Rightarrow> datetime \<Rightarrow> string \<Rightarrow> evaluation list \<Rightarrow> string \<Rightarrow> world
   \<Rightarrow> error option \<times> world" where
  "write_to_db self mid start_time end_time freq evaluations matrix_type w =
     (if \<not> db_engine self then (Some AttributeError, w)
      else case table_for matrix_type of
             None \<Rightarrow> (Some UnboundLocalError, w)
           | Some table_obj \<Rightarrow>
               (None,
                add_all (map (stamp mid start_time end_time freq) evaluations)
                  (set_rows table_obj
                     (filter (\<lambda>e. \<not> under_key mid start_time end_time freq e)
                        (rows_of table_obj w)) w)))"

section \<open>The evaluation orchestrator\<close>

text \<open>\<^verbatim>\<open>numpy.isfinite\<close> and indexing by a boolean mask, which needs a mask of the array's
  length.\<close>

fun isfinite :: "pyfloat \<Rightarrow> bool" where
  "isfinite (Finite q) = True"
| "isfinite f = False"

definition mask_select :: "bool list \<Rightarrow> 'a list \<Rightarrow> error + 'a list" where
  "mask_select nan_mask xs =
     (if length nan_mask \<noteq> length xs then Inl IndexError
      else Inr (map snd (filter fst (zip nan_mask xs))))"

text \<open>One pass of the percentile loop or of the top-n loop of \<^verbatim>\<open>evaluate\<close>.\<close>

definition evaluate_threshold ::
  "(pynum \<Rightarrow> string) \<Rightarrow> world \<Rightarrow> evaluator \<Rightarrow> metric_group \<Rightarrow> params list \<Rightarrow>
   pyfloat list \<Rightarrow> pyfloat list \<Rightarrow> string \<Rightarrow> string \<Rightarrow> string \<Rightarrow> pynum \<Rightarrow> error + evaluation list" where
  "evaluate_threshold str_of w self grp parameter_list predictions_proba_sorted labels_sorted
      matrix_type unit key thresh =
     or_raise (generate_binary_at_x predictions_proba_sorted thresh unit) (\<lambda>predicted_classes.
     or_raise (mask_select (map isfinite labels_sorted) predicted_classes) (\<lambda>predicted_classes.
     or_raise (mask_select (map isfinite labels_sorted) labels_sorted) (\<lambda>present_labels_sorted.
       generate_evaluations str_of w self (metrics grp) parameter_list [(key, thresh)]
         None predicted_classes present_labels_sorted matrix_type)))"

text \<open>The body of the loop over the metric groups.\<close>

definition evaluate_group ::
  "(pynum \<Rightarrow> string) \<Rightarrow> world \<Rightarrow> evaluator \<Rightarrow> pyfloat list \<Rightarrow> pyfloat list \<Rightarrow> pyfloat list \<Rightarrow>
   string \<Rightarrow> metric_group \<Rightarrow> error + evaluation list" where
  "evaluate_group str_of w self predictions_proba predictions_proba_sorted labels_sorted
      matrix_type grp =
     (let parameter_list = (case parameters grp of None \<Rightarrow> [[]] | Some ps \<Rightarrow> ps) in
      or_raise
        (case thresholds grp of
           None \<Rightarrow>
             or_raise (generate_binary_at_x predictions_proba_sorted (PyInt 100) ''percentile'')
               (\<lambda>all_ones.
                  generate_evaluations str_of w self (metrics grp) parameter_list []
                    (Some predictions_proba) all_ones labels_sorted matrix_type)
         | Some t \<Rightarrow> Inr [])
        (\<lambda>full.
      or_raise
        (for_each
           (evaluate_threshold str_of w self grp parameter_list predictions_proba_sorted
              labels_sorted matrix_type ''percentile'' ''pct'')
           (case thresholds grp of None \<Rightarrow> [] | Some t \<Rightarrow> percentiles t))
        (\<lambda>pct.
      or_raise
        (for_each
           (evaluate_threshold str_of w self grp parameter_list predictions_proba_sorted
              labels_sorted matrix_type ''top_n'' ''abs'')
           (case thresholds grp of None \<Rightarrow> [] | Some t \<Rightarrow> top_n t))
        (\<lambda>top. Inr (full @ concat pct @ concat top)))))"

text \<open>
  \<^verbatim>\<open>evaluate(predictions_proba, labels, model_id, evaluation_start_time,
  evaluation_end_time, as_of_date_frequency, matrix_type)\<close>. \<open>sort_fn\<close> is
  \<^verbatim>\<open>sort_predictions_and_labels\<close> of \<^verbatim>\<open>utils\<close>, called with the seed of the instance.

  \<open>evaluations_for\<close> is the method up to its call of \<^verbatim>\<open>_write_to_db\<close>: the sort, the choice
  of the metric groups by \<^verbatim>\<open>matrix_type\<close> (any string other than the two known ones raises
  \<^verbatim>\<open>ValueError\<close>), and the loop over the groups that builds the list \<^verbatim>\<open>evaluations\<close>.
\<close>

definition evaluations_for ::
  "(pynum \<Rightarrow> string) \<Rightarrow>
   (pyfloat list \<Rightarrow> pyfloat list \<Rightarrow> int \<Rightarrow> error + pyfloat list \<times> pyfloat list) \<Rightarrow>
   world \<Rightarrow> evaluator \<Rightarrow> pyfloat list \<Rightarrow> pyfloat list \<Rightarrow> string \<Rightarrow> error + evaluation list" where
  "evaluations_for str_of sort_fn w self predictions_proba labels matrix_type =
     or_raise (sort_fn predictions_proba labels (sort_seed self))
       (\<lambda>(predictions_proba_sorted, labels_sorted).
     or_raise
       (if lower matrix_type = ''train'' then Inr (training_metric_groups self)
        else if lower matrix_type = ''test'' then Inr (metric_groups self)
        else Inl ValueError)
       (\<lambda>metrics_groups_to_compute.
     or_raise
       (for_each
          (evaluate_group str_of w self predictions_proba predictions_proba_sorted
             labels_sorted matrix_type)
          metrics_groups_to_compute)
       (\<lambda>per_group. Inr (concat per_group))))"

text \<open>The whole method: the exception raised, if any, and the state after the call.\<close>

definition evaluate ::
  "(pynum \<Rightarrow> string) \<Rightarrow>
   (pyfloat list \<Rightarrow> pyfloat list \<Rightarrow> int \<Rightarrow> error + pyfloat list \<times> pyfloat list) \<Rightarrow>
   evaluator \<Rightarrow> pyfloat list \<Rightarrow> pyfloat list \<Rightarrow> int \<Rightarrow> datetime \<Rightarrow> datetime \<Rightarrow> string \<Rightarrow> string \<Rightarrow>
   world \<Rightarrow> error option \<times> world" where
  "evaluate str_of sort_fn self predictions_proba labels mid start_time end_time freq matrix_type w =
     (case evaluations_for str_of sort_fn w self predictions_proba labels matrix_type of
        Inl e \<Rightarrow> (Some e, w)
      | Inr evaluations \<Rightarrow>
          write_to_db self mid start_time end_time freq evaluations matrix_type w)"

text \<open>
  Modelled from the spec: \<^verbatim>\<open>sort_predictions_and_labels\<close> is not among the sources. The spec
  has it order the pairs of a score and a label by descending score and break ties among
  equal scores pseudo-randomly, as a function of the seed. \<open>draw seed i\<close> stands for the
  \<open>i\<close>-th number drawn from the generator seeded with \<open>seed\<close>; it is the second component of
  the sort key of the \<open>i\<close>-th pair. Pairs whose keys are equal keep their input order.
\<close>

fun float_lt :: "pyfloat \<Rightarrow> pyfloat \<Rightarrow> bool" where
  "float_lt a b = num_lt (PyFloat a) (PyFloat b)"

definition key_lt :: "pyfloat \<times> rat \<Rightarrow> pyfloat \<times> rat \<Rightarrow> bool" where
  "key_lt k1 k2 =
     (if fst k1 = fst k2 \<and> fst k1 \<noteq> NaN then snd k1 < snd k2 else float_lt (fst k1) (fst k2))"

fun insert_desc ::
  "(pyfloat \<times> rat) \<times> pyfloat \<Rightarrow> ((pyfloat \<times> rat) \<times> pyfloat) list \<Rightarrow> ((pyfloat \<times> rat) \<times> pyfloat) list" where
  "insert_desc p [] = [p]"
| "insert_desc p (q # qs) =
     (if key_lt (fst p) (fst q) then q # insert_desc p qs else p # q # qs)"

definition sort_predictions_and_labels ::
  "(int \<Rightarrow> nat \<Rightarrow> rat) \<Rightarrow> pyfloat list \<Rightarrow> pyfloat list \<Rightarrow> int \<Rightarrow>
   error + pyfloat list \<times> pyfloat list" where
  "sort_predictions_and_labels draw predictions_proba labels seed =
     (let pairs = zip predictions_proba labels;
          keyed = zip (zip (map fst pairs) (map (draw seed) [0..<length pairs])) (map snd pairs);
          sorted = foldr insert_desc keyed []
      in Inr (map (fst \<circ> fst) sorted, map snd sorted))"

section \<open>Example inputs\<close>

text \<open>
  A registry with one probe metric, which returns the first of the continuous scores it is
  given, an evaluator with one un-thresholded group that asks for it, and one that asks for
  a metric nobody registered. The example scores are distinct, so the tie-break of the sort
  plays no part and the draws are all taken to be 0.
\<close>

definition example_sort ::
  "pyfloat list \<Rightarrow> pyfloat list \<Rightarrow> int \<Rightarrow> error + pyfloat list \<times> pyfloat list" where
  "example_sort = sort_predictions_and_labels (\<lambda>seed i. 0)"

definition first_score :: metric_obj where
  "first_score =
     \<lparr> call = (\<lambda>predictions_proba predictions_binary labels ps.
                 case predictions_proba of
                   Some (x # xs) \<Rightarrow> Inr x
                 | _ \<Rightarrow> Inl (MetricFailure ''no scores'')),
       greater_is_better = Some (PyBool True) \<rparr>"

definition example_world :: world where
  "example_world =
     \<lparr> available_metrics = [''first_score'' \<mapsto> first_score],
       train_evaluations = [], test_evaluations = [] \<rparr>"

definition example_evaluator :: evaluator where
  "example_evaluator =
     \<lparr> metric_groups = [\<lparr> metrics = [''first_score''], parameters = None, thresholds = None \<rparr>],
       training_metric_groups = [], db_engine = True, sort_seed = 1 \<rparr>"

definition unknown_metric_evaluator :: evaluator where
  "unknown_metric_evaluator =
     \<lparr> metric_groups = [\<lparr> metrics = [''nonexistent''], parameters = None, thresholds = None \<rparr>],
       training_metric_groups = [], db_engine = True, sort_seed = 1 \<rparr>"

definition example_row :: evaluation where
  "example_row =
     \<lparr> row_class = TestEvaluation, metric = ''first_score'', parameter = [],
       metric_value = Finite (1 / 4), num_labeled_examples = 2,
       num_labeled_above_threshold = 2, num_positive_labels = 1, row_sort_seed = 1,
       model_id = None, evaluation_start_time = None, evaluation_end_time = None,
       as_of_date_frequency = None \<rparr>"

section \<open>Properties of the float model\<close>

lemma expo_bounds:
  assumes "0 < x"
  shows "2 powi expo x \<le> x \<and> x < 2 powi (expo x + 1)"
proof (cases "1 \<le> x")
  case True
  define m where "m = \<lfloor>x\<rfloor>"
  have m: "0 < m" using True by (simp add: m_def)
  have e: "expo x = bitlen m - 1" using True by (simp add: expo_def m_def)
  have b1: "1 \<le> bitlen m" using m by (auto simp: bitlen_alt_def)
  from bitlen_bounds[OF m] have lo: "2 ^ nat (bitlen m - 1) \<le> m" and hi: "m < 2 ^ nat (bitlen m)"
    by auto
  have "(2::rat) powi expo x = 2 ^ nat (bitlen m - 1)"
    using b1 by (simp add: e power_int_def)
  also have "\<dots> = of_int (2 ^ nat (bitlen m - 1))" by simp
  also have "\<dots> \<le> of_int m" using lo by (simp only: of_int_le_iff)
  also have "\<dots> \<le> x" by (simp add: m_def)
  finally have A: "2 powi expo x \<le> x" .
  have "m + 1 \<le> 2 ^ nat (bitlen m)" using hi by simp
  then have "(of_int (m + 1) :: rat) \<le> of_int (2 ^ nat (bitlen m))" by (simp only: of_int_le_iff)
  moreover have "x < of_int (m + 1)" unfolding m_def by linarith
  ultimately have "x < of_int (2 ^ nat (bitlen m))" by linarith
  moreover have "(2::rat) powi (expo x + 1) = of_int (2 ^ nat (bitlen m))"
    using b1 by (simp add: e power_int_def)
  ultimately have B: "x < 2 powi (expo x + 1)" by simp
  from A B show ?thesis ..
next
  case False
  define c where "c = \<lceil>1 / x\<rceil>"
  define m where "m = c - 1"
  have x1: "x < 1" using False by simp
  have inv: "1 < 1 / x" using assms x1 by (simp add: field_simps)
  have c2: "2 \<le> c" using inv unfolding c_def by (simp add: le_ceiling_iff)
  have m: "0 < m" using c2 by (simp add: m_def)
  define b where "b = bitlen m"
  have e: "expo x = - b" using False by (simp add: expo_def m_def c_def b_def)
  have b1: "1 \<le> b" using m by (auto simp: bitlen_alt_def b_def)
  from bitlen_bounds[OF m] have lo: "2 ^ nat (b - 1) \<le> m" and hi: "m < 2 ^ nat b"
    by (auto simp: b_def)
  have "1 / x \<le> of_int c" by (simp add: c_def)
  also have "c \<le> 2 ^ nat b" using hi by (simp add: m_def)
  then have "(of_int c :: rat) \<le> of_int (2 ^ nat b)" by (simp only: of_int_le_iff)
  finally have u: "1 / x \<le> 2 ^ nat b" by simp
  have "(2::rat) powi expo x = 1 / 2 ^ nat b"
    using b1 by (simp add: e power_int_def field_simps)
  moreover have "1 / 2 ^ nat b \<le> x"
    using u assms by (simp add: field_simps)
  ultimately have A: "2 powi expo x \<le> x" by simp
  have "(of_int m :: rat) < 1 / x" unfolding m_def c_def by linarith
  moreover have "(2::rat) ^ nat (b - 1) \<le> of_int m"
    using lo by (metis of_int_le_iff of_int_numeral of_int_power)
  ultimately have l: "2 ^ nat (b - 1) < 1 / x" by linarith
  have "(2::rat) powi (expo x + 1) = 1 / 2 ^ nat (b - 1)"
    using b1 by (simp add: e power_int_def field_simps nat_diff_distrib)
  moreover have "x < 1 / 2 ^ nat (b - 1)"
    using l assms by (simp add: field_simps)
  ultimately have B: "x < 2 powi (expo x + 1)" by simp
  from A B show ?thesis ..
qed

lemma pow2_strict_mono: "a < b \<Longrightarrow> (2::rat) powi a < 2 powi b"
  by (rule power_int_strict_increasing) simp_all

lemma pow2_mono: "a \<le> b \<Longrightarrow> (2::rat) powi a \<le> 2 powi b"
  by (rule power_int_increasing) simp_all

lemma pow2_nonneg_int: "0 \<le> k \<Longrightarrow> (2::rat) powi k = of_int (2 ^ nat k)"
  by (simp add: power_int_def)

lemma pow2_split: "(2::rat) powi a = 2 powi (a - b) * 2 powi b"
  by (simp add: power_int_add [symmetric])

lemma expo_unique:
  assumes "2 powi a \<le> x" and "x < 2 powi (a + 1)"
  shows "expo x = a"
proof -
  have pos: "0 < x" using assms(1) zero_less_power_int[of "2::rat" a] by linarith
  from expo_bounds[OF pos] have lo: "2 powi expo x \<le> x" and hi: "x < 2 powi (expo x + 1)"
    by auto
  have "(2::rat) powi a < 2 powi (expo x + 1)" using assms(1) hi by linarith
  then have 1: "a < expo x + 1"
    using pow2_mono[of "expo x + 1" a] by (cases "a < expo x + 1") auto
  have "(2::rat) powi expo x < 2 powi (a + 1)" using assms(2) lo by linarith
  then have 2: "expo x < a + 1"
    using pow2_mono[of "a + 1" "expo x"] by (cases "expo x < a + 1") auto
  from 1 2 show ?thesis by simp
qed

lemma expo_mono:
  assumes "0 < x" and "x \<le> y"
  shows "expo x \<le> expo y"
proof -
  have "0 < y" using assms by simp
  from expo_bounds[OF assms(1)] expo_bounds[OF this]
  have "(2::rat) powi expo x < 2 powi (expo y + 1)" using assms(2) by linarith
  then show ?thesis
    using pow2_mono[of "expo y + 1" "expo x"] by (cases "expo x < expo y + 1") auto
qed

lemma expo_pow2: "expo (2 powi k) = k"
  by (rule expo_unique) (simp_all add: pow2_strict_mono)

lemma rne_of_int: "rne (of_int k) = k"
  by (simp add: rne_def)

lemma rne_bounds: "\<lfloor>z\<rfloor> \<le> rne z \<and> rne z \<le> \<lfloor>z\<rfloor> + 1"
  by (simp add: rne_def Let_def)

lemma rne_mono:
  assumes "z \<le> w"
  shows "rne z \<le> rne w"
proof (cases "\<lfloor>z\<rfloor> = \<lfloor>w\<rfloor>")
  case True
  then show ?thesis using assms by (auto simp: rne_def Let_def)
next
  case False
  then have "\<lfloor>z\<rfloor> < \<lfloor>w\<rfloor>" using floor_mono[OF assms] by simp
  then show ?thesis using rne_bounds[of z] rne_bounds[of w] by linarith
qed

lemma rne_le_int: "z \<le> of_int k \<Longrightarrow> rne z \<le> k"
  using rne_mono[of z "of_int k"] by (simp add: rne_of_int)

lemma rne_ge_int: "of_int k \<le> z \<Longrightarrow> k \<le> rne z"
  using rne_mono[of "of_int k" z] by (simp add: rne_of_int)

text \<open>Rounding on the grid of multiples of \<open>2 powi q\<close>.\<close>

lemma grid_le:
  assumes "x \<le> of_int t * 2 powi q"
  shows "(of_int (rne (x / 2 powi q)) :: rat) * 2 powi q \<le> of_int t * 2 powi q"
proof -
  have p: "(0::rat) < 2 powi q" by simp
  have "x / 2 powi q \<le> of_int t" using assms p by (simp add: field_simps)
  then have "rne (x / 2 powi q) \<le> t" by (rule rne_le_int)
  then have "(of_int (rne (x / 2 powi q)) :: rat) \<le> of_int t" by (simp only: of_int_le_iff)
  then show ?thesis using p by (intro mult_right_mono) simp_all
qed

lemma grid_ge:
  assumes "of_int t * 2 powi q \<le> x"
  shows "(of_int t :: rat) * 2 powi q \<le> of_int (rne (x / 2 powi q)) * 2 powi q"
proof -
  have p: "(0::rat) < 2 powi q" by simp
  have "of_int t \<le> x / 2 powi q" using assms p by (simp add: field_simps)
  then have "t \<le> rne (x / 2 powi q)" by (rule rne_ge_int)
  then have "(of_int t :: rat) \<le> of_int (rne (x / 2 powi q))" by (simp only: of_int_le_iff)
  then show ?thesis using p by (intro mult_right_mono) simp_all
qed

lemma pow2_on_grid:
  assumes "q \<le> k"
  shows "(2::rat) powi k = of_int (2 ^ nat (k - q)) * 2 powi q"
proof -
  have "(2::rat) powi k = 2 powi (k - q) * 2 powi q" by (rule pow2_split)
  also have "(2::rat) powi (k - q) = of_int (2 ^ nat (k - q))"
    using assms by (simp add: pow2_nonneg_int)
  finally show ?thesis .
qed

lemma quantum_le_expo: "0 < x \<Longrightarrow> - 1074 \<le> expo x \<Longrightarrow> quantum x \<le> expo x"
  by (simp add: quantum_def)

lemma round_pos_le_pow2:
  assumes "x \<le> 2 powi k" and "quantum x \<le> k"
  shows "round_pos x \<le> 2 powi k"
  using grid_le[of x "2 ^ nat (k - quantum x)" "quantum x"] assms(1)
  unfolding round_pos_def pow2_on_grid[OF assms(2)] by blast

lemma round_pos_ge_pow2:
  assumes "2 powi k \<le> x" and "quantum x \<le> k"
  shows "2 powi k \<le> round_pos x"
  using grid_ge[of "2 ^ nat (k - quantum x)" "quantum x" x] assms(1)
  unfolding round_pos_def pow2_on_grid[OF assms(2)] by blast

lemma round_pos_nonneg: "0 \<le> x \<Longrightarrow> 0 \<le> round_pos x"
  using grid_ge[of 0 "quantum x" x] by (simp add: round_pos_def)

lemma round_pos_mono:
  assumes "0 < x" and "x \<le> y"
  shows "round_pos x \<le> round_pos y"
proof -
  have ypos: "0 < y" using assms by simp
  have qm: "quantum x \<le> quantum y"
    using expo_mono[OF assms] by (simp add: quantum_def)
  show ?thesis
  proof (cases "quantum x = quantum y")
    case True
    have p: "(0::rat) < 2 powi quantum y" by simp
    have "x / 2 powi quantum y \<le> y / 2 powi quantum y"
      using assms(2) p by (simp add: divide_right_mono)
    then have "rne (x / 2 powi quantum y) \<le> rne (y / 2 powi quantum y)" by (rule rne_mono)
    then have "(of_int (rne (x / 2 powi quantum y)) :: rat) \<le> of_int (rne (y / 2 powi quantum y))"
      by (simp only: of_int_le_iff)
    then show ?thesis using p by (simp add: round_pos_def True mult_right_mono)
  next
    case False
    then have lt: "quantum x < quantum y" using qm by simp
    then have qy: "quantum y = expo y - 52" by (auto simp: quantum_def max_def split: if_splits)
    have "expo x - 52 \<le> quantum x" by (simp add: quantum_def)
    then have ex: "expo x + 1 \<le> expo y" using lt qy by simp
    from expo_bounds[OF assms(1)] have "x < 2 powi (expo x + 1)" by simp
    also have "\<dots> \<le> 2 powi expo y" using ex by (rule pow2_mono)
    finally have 1: "x \<le> 2 powi expo y" by simp
    from expo_bounds[OF ypos] have 2: "2 powi expo y \<le> y" by simp
    have "round_pos x \<le> 2 powi expo y"
      using 1 lt qy by (intro round_pos_le_pow2) simp_all
    moreover have "2 powi expo y \<le> round_pos y"
      using 2 qy by (intro round_pos_ge_pow2) simp_all
    ultimately show ?thesis by simp
  qed
qed

lemma fl_nonneg: "0 \<le> x \<Longrightarrow> 0 \<le> fl x"
  by (simp add: fl_def round_pos_nonneg)

lemma fl_nonpos: "x \<le> 0 \<Longrightarrow> fl x \<le> 0"
  using round_pos_nonneg[of "- x"] by (simp add: fl_def)

lemma fl_mono:
  assumes "x \<le> y"
  shows "fl x \<le> fl y"
proof -
  consider "0 < x" | "x \<le> 0" "0 \<le> y" | "y < 0" by linarith
  then show ?thesis
  proof cases
    case 1
    then show ?thesis using assms round_pos_mono[of x y] by (simp add: fl_def)
  next
    case 2
    then show ?thesis using fl_nonpos[of x] fl_nonneg[of y] by simp
  next
    case 3
    then have "0 < - y" "- y \<le> - x" using assms by simp_all
    from round_pos_mono[OF this] show ?thesis using 3 assms by (simp add: fl_def)
  qed
qed

lemma fl_minus: "fl (- x) = - fl x"
  by (simp add: fl_def)

lemma fl_pow2:
  assumes "- 1074 \<le> k"
  shows "fl (2 powi k) = 2 powi k"
proof -
  have q: "quantum (2 powi k) \<le> k" using assms by (simp add: quantum_def expo_pow2)
  have "round_pos (2 powi k) \<le> 2 powi k" using q by (intro round_pos_le_pow2) simp_all
  moreover have "2 powi k \<le> round_pos (2 powi k)" using q by (intro round_pos_ge_pow2) simp_all
  ultimately show ?thesis by (simp add: fl_def)
qed

lemma fl_le_pow2: "x \<le> 2 powi k \<Longrightarrow> - 1074 \<le> k \<Longrightarrow> fl x \<le> 2 powi k"
  using fl_mono[of x "2 powi k"] by (simp add: fl_pow2)

lemma fl_ge_minus_pow2: "- (2 powi k) \<le> x \<Longrightarrow> - 1074 \<le> k \<Longrightarrow> - (2 powi k) \<le> fl x"
  using fl_mono[of "- (2 powi k)" x] by (simp add: fl_pow2 fl_minus)

section \<open>Properties of the threshold binarizer\<close>

lemma trunc_mono:
  assumes "q \<le> r"
  shows "trunc q \<le> trunc r"
proof -
  consider "0 \<le> q" | "q < 0" "0 \<le> r" | "r < 0" by linarith
  then show ?thesis
  proof cases
    case 1
    then show ?thesis using assms by (simp add: trunc_def floor_mono)
  next
    case 2
    have "trunc q = \<lceil>q\<rceil>" "trunc r = \<lfloor>r\<rfloor>" using 2 by (simp_all add: trunc_def)
    moreover have "\<lceil>q\<rceil> \<le> 0" using 2 by (simp add: ceiling_le_zero)
    moreover have "0 \<le> \<lfloor>r\<rfloor>" using 2 by simp
    ultimately show ?thesis by linarith
  next
    case 3
    then show ?thesis using assms by (simp add: trunc_def ceiling_mono)
  qed
qed

lemma trunc_of_int: "trunc (of_int k) = k"
  by (simp add: trunc_def)

lemma round_pos_exact:
  assumes "x = of_int m * 2 powi quantum x"
  shows "round_pos x = x"
proof -
  have "x / 2 powi quantum x = of_int m"
    using assms by (metis nonzero_mult_div_cancel_right power_int_eq_0_iff zero_neq_numeral)
  then show ?thesis using assms by (simp add: round_pos_def rne_of_int)
qed

lemma fl_of_int_pos:
  assumes "0 < i" and "i \<le> 2 ^ 53"
  shows "fl (of_int i) = of_int i"
proof (cases "i = 2 ^ 53")
  case True
  have "fl (2 powi 53) = 2 powi 53" by (rule fl_pow2) simp
  then show ?thesis using True by simp
next
  case False
  define x :: rat where "x = of_int i"
  have xpos: "0 < x" using assms by (simp add: x_def)
  have "i < 2 ^ 53" using False assms by simp
  then have "x < of_int (2 ^ 53)" unfolding x_def by (simp only: of_int_less_iff)
  then have xlt: "x < 2 powi 53" by simp
  have "(1::rat) \<le> x" using assms by (simp add: x_def)
  then have "(2::rat) powi 0 \<le> x" by simp
  have e0: "0 \<le> expo x"
    using expo_mono[of "2 powi 0" x] \<open>2 powi 0 \<le> x\<close> by (simp add: expo_pow2 del: power_int_0_right)
  from expo_bounds[OF xpos] have "(2::rat) powi expo x < 2 powi 53" using xlt by linarith
  then have e52: "expo x \<le> 52"
    using pow2_mono[of 53 "expo x"] by (cases "expo x < 53") auto
  have q: "quantum x = expo x - 52" using e0 by (simp add: quantum_def)
  have "x = of_int (i * 2 ^ nat (52 - expo x)) * 2 powi quantum x"
  proof -
    have "(2::rat) powi 0 = of_int (2 ^ nat (0 - quantum x)) * 2 powi quantum x"
      by (rule pow2_on_grid) (use q e52 in simp)
    then have "(1::rat) = of_int (2 ^ nat (52 - expo x)) * 2 powi quantum x"
      by (simp add: q)
    then have "x = x * (of_int (2 ^ nat (52 - expo x)) * 2 powi quantum x)" by simp
    then show ?thesis by (simp add: x_def mult.assoc)
  qed
  then have "round_pos x = x" by (rule round_pos_exact)
  then show ?thesis using xpos by (simp add: fl_def x_def)
qed

lemma fl_of_nat: "n \<le> 2 ^ 53 \<Longrightarrow> fl (of_nat n) = of_nat n"
proof (cases "n = 0")
  case True then show ?thesis by (simp add: fl_def)
next
  case False
  assume "n \<le> 2 ^ 53"
  then have "int n \<le> 2 ^ 53" by (metis of_nat_le_iff of_nat_numeral of_nat_power)
  with fl_of_int_pos[of "int n"] False show ?thesis by simp
qed

lemma to_double_Finite: "to_double x = Finite y \<Longrightarrow> y = fl x \<and> \<bar>fl x\<bar> < 2 powi 1024"
  by (auto simp: to_double_def Let_def split: if_splits)

lemma to_double_bounded: "\<bar>fl x\<bar> < 2 powi 1024 \<Longrightarrow> to_double x = Finite (fl x)"
  by (auto simp: to_double_def Let_def)

lemma float_of_int_Inr: "float_of_int i = Inr f \<Longrightarrow> f = Finite (fl (of_int i))"
  by (cases "to_double (of_int i)") (auto simp: float_of_int_def dest: to_double_Finite)

lemma float_truediv_100:
  "float_truediv f (Finite 100) = Inr (case f of Finite q \<Rightarrow> to_double (q / 100) | PosInf \<Rightarrow> PosInf
      | NegInf \<Rightarrow> NegInf | NaN \<Rightarrow> NaN)"
  by (cases f) simp_all

lemma float_mul_Finite:
  "float_mul (Finite a) d = Finite h \<Longrightarrow> \<exists>g. d = Finite g \<and> h = fl (a * g)"
  by (cases d) (auto dest: to_double_Finite split: if_splits)

text \<open>What a successful percentile computation returns.\<close>

lemma cutoff_index_percentile:
  assumes "cutoff_index n x ''percentile'' = Inr c"
  shows "\<exists>q. as_float x = Inr (Finite q) \<and>
     c = PyInt (trunc (fl (fl (of_nat n) * fl (q / 100))))"
proof -
  from assms obtain f where f: "as_float x = Inr f"
    by (cases "as_float x") (auto simp: cutoff_index_def)
  define d where "d = (case f of Finite q \<Rightarrow> to_double (q / 100) | PosInf \<Rightarrow> PosInf
      | NegInf \<Rightarrow> NegInf | NaN \<Rightarrow> NaN)"
  have dv: "float_truediv f (Finite 100) = Inr d"
    unfolding d_def by (rule float_truediv_100)
  from assms have *: "or_raise (float_of_int (int n)) (\<lambda>l.
           or_raise (py_int (float_mul l d)) (\<lambda>k. Inr (PyInt k))) = Inr c"
    by (simp add: cutoff_index_def f dv del: float_truediv.simps)
  then obtain l where l: "float_of_int (int n) = Inr l"
    by (cases "float_of_int (int n)") auto
  then have l': "l = Finite (fl (of_nat n))" by (auto dest: float_of_int_Inr)
  from * l obtain k where k: "py_int (float_mul l d) = Inr k" and c: "c = PyInt k"
    by (cases "py_int (float_mul l d)") auto
  from k obtain h where h: "float_mul l d = Finite h" and kh: "k = trunc h"
    by (cases "float_mul l d") auto
  from h l' obtain g where g: "d = Finite g" and hg: "h = fl (fl (of_nat n) * g)"
    by (auto dest: float_mul_Finite)
  from g obtain q where q: "f = Finite q" and gq: "g = fl (q / 100)"
    by (cases f) (auto simp: d_def dest: to_double_Finite)
  show ?thesis using f q c kh hg gq by simp
qed

lemma binary_map_eq: "map (\<lambda>x. if int x < k then 1 else 0) [0..<n] = first_k_ones n k"
  by (rule nth_equalityI) (auto simp: first_k_ones_def nth_append)

lemma generate_binary_at_x_int:
  "cutoff_index (length xs) c u = Inr (PyInt k) \<Longrightarrow>
     generate_binary_at_x xs c u = Inr (first_k_ones (length xs) k)"
  by (simp add: generate_binary_at_x_def binary_map_eq)

lemma length_first_k_ones: "length (first_k_ones n k) = n"
  by (simp add: binary_map_eq [symmetric])

lemma nth_first_k_ones: "i < n \<Longrightarrow> first_k_ones n k ! i = (if int i < k then 1 else 0)"
  by (simp add: binary_map_eq [symmetric])

lemma marked_first_k_ones: "marked (first_k_ones n k) = {i. i < n \<and> int i < k}"
  by (auto simp: marked_def length_first_k_ones nth_first_k_ones split: if_splits)

lemma fl_0: "fl 0 = 0" by (simp add: fl_def)

lemma fl_1: "fl 1 = 1" using fl_of_int_pos[of 1] by simp

lemma fl_100: "fl 100 = 100" using fl_of_int_pos[of 100] by simp

lemma finite_pow2_bound: "k \<le> 1023 \<Longrightarrow> (2::rat) powi k < 2 powi 1024"
  by (rule pow2_strict_mono) simp

lemma to_double_range:
  assumes "0 \<le> x" and "x \<le> 2 powi k" and "- 1074 \<le> k" and "k \<le> 1023"
  shows "to_double x = Finite (fl x) \<and> 0 \<le> fl x \<and> fl x \<le> 2 powi k"
proof -
  have a: "0 \<le> fl x" using assms(1) by (rule fl_nonneg)
  have b: "fl x \<le> 2 powi k" using assms(2,3) by (rule fl_le_pow2)
  have "fl x < 2 powi 1024" using b finite_pow2_bound[OF assms(4)] by linarith
  then have "\<bar>fl x\<bar> < 2 powi 1024" using a by simp
  then show ?thesis using a b by (simp add: to_double_bounded)
qed

lemma as_float_percentile:
  assumes "is_percentile c"
  shows "\<exists>q. as_float c = Inr (Finite q) \<and> 0 \<le> q \<and> q \<le> 100"
proof (cases c)
  case (PyInt i)
  then have i: "0 < i" "i \<le> 100" using assms by simp_all
  have "(of_int i :: rat) \<le> of_int 100" using i by (simp only: of_int_le_iff)
  then have le: "(of_int i :: rat) \<le> 100" by simp
  have "(100::rat) \<le> 2 powi 7" by simp
  then have "to_double (of_int i) = Finite (fl (of_int i))"
    using to_double_range[of "of_int i" 7] i le by simp
  moreover have "0 \<le> fl (of_int i)" using i by (intro fl_nonneg) simp
  moreover have "fl (of_int i) \<le> 100" using fl_mono[OF le] by (simp add: fl_100)
  ultimately show ?thesis using PyInt by (simp add: float_of_int_def)
next
  case (PyFloat f)
  then show ?thesis using assms by (cases f) auto
qed

lemma float_of_nat_small:
  assumes "n < 2 ^ 63"
  shows "float_of_int (int n) = Inr (Finite (fl (of_nat n))) \<and> 0 \<le> fl (of_nat n :: rat)
     \<and> fl (of_nat n :: rat) \<le> 2 powi 63"
proof -
  have "(of_nat n :: rat) \<le> of_nat (2 ^ 63)" using assms by (simp only: of_nat_le_iff)
  then have "(of_nat n :: rat) \<le> 2 powi 63" by simp
  from to_double_range[OF _ this] show ?thesis by (simp add: float_of_int_def)
qed

lemma cutoff_index_percentile_returns:
  assumes "is_percentile c" and "n < 2 ^ 63"
  shows "\<exists>k. cutoff_index n c ''percentile'' = Inr (PyInt k)"
proof -
  from as_float_percentile[OF assms(1)] obtain q
    where q: "as_float c = Inr (Finite q)" "0 \<le> q" "q \<le> 100" by blast
  have "0 \<le> q / 100" "q / 100 \<le> 2 powi 0" using q by simp_all
  from to_double_range[OF this] have d: "to_double (q / 100) = Finite (fl (q / 100))"
    and g: "0 \<le> fl (q / 100)" "fl (q / 100) \<le> 1" by simp_all
  from float_of_nat_small[OF assms(2)] have l: "float_of_int (int n) = Inr (Finite (fl (of_nat n)))"
    and ln: "0 \<le> fl (of_nat n :: rat)" "fl (of_nat n :: rat) \<le> 2 powi 63" by simp_all
  have "fl (of_nat n) * fl (q / 100) \<le> fl (of_nat n) * 1"
    using g ln by (intro mult_left_mono) simp_all
  then have "0 \<le> fl (of_nat n) * fl (q / 100)" "fl (of_nat n) * fl (q / 100) \<le> 2 powi 63"
    using g ln by simp_all
  from to_double_range[OF this]
  have m: "to_double (fl (of_nat n) * fl (q / 100)) = Finite (fl (fl (of_nat n) * fl (q / 100)))"
    by simp
  show ?thesis
    by (simp add: cutoff_index_def q(1) d l m)
qed

lemma as_float_mono:
  assumes "is_pynum p1" and "is_pynum p2" and "num_lt p1 p2"
    and "as_float p1 = Inr (Finite q1)" and "as_float p2 = Inr (Finite q2)"
  shows "q1 \<le> q2"
proof (cases p1)
  case i: (PyInt i)
  then have q1: "q1 = fl (of_int i)" using assms(4) by (auto dest: float_of_int_Inr)
  show ?thesis
  proof (cases p2)
    case (PyInt j)
    then have "q2 = fl (of_int j)" using assms(5) by (auto dest: float_of_int_Inr)
    moreover have "(of_int i :: rat) \<le> of_int j" using assms(3) i PyInt by simp
    ultimately show ?thesis using q1 by (simp add: fl_mono)
  next
    case (PyFloat f)
    then have f: "f = Finite q2" using assms(5) by simp
    then have "fl q2 = q2" using assms(2) PyFloat by simp
    moreover have "(of_int i :: rat) \<le> q2" using assms(3) i PyFloat f by simp
    ultimately show ?thesis using q1 fl_mono[of "of_int i" q2] by simp
  qed
next
  case p: (PyFloat f)
  then have f: "f = Finite q1" using assms(4) by simp
  then have r: "fl q1 = q1" using assms(1) p by simp
  show ?thesis
  proof (cases p2)
    case (PyInt j)
    then have "q2 = fl (of_int j)" using assms(5) by (auto dest: float_of_int_Inr)
    moreover have "q1 \<le> of_int j" using assms(3) p f PyInt by simp
    ultimately show ?thesis using r fl_mono[of q1 "of_int j"] by simp
  next
    case (PyFloat g)
    then have "g = Finite q2" using assms(5) by simp
    then show ?thesis using assms(3) p f PyFloat by simp
  qed
qed

lemma percentile_index_mono:
  assumes "q1 \<le> q2"
  shows "trunc (fl (fl (of_nat n) * fl (q1 / 100))) \<le> trunc (fl (fl (of_nat n) * fl (q2 / 100)))"
proof -
  have "fl (q1 / 100) \<le> fl (q2 / 100)" using assms by (intro fl_mono) simp
  moreover have "0 \<le> fl (of_nat n :: rat)" by (intro fl_nonneg) simp
  ultimately have "fl (of_nat n) * fl (q1 / 100) \<le> fl (of_nat n) * fl (q2 / 100)"
    by (rule mult_left_mono)
  then show ?thesis by (intro trunc_mono fl_mono)
qed

lemma first_k_ones_nonpos: "k \<le> 0 \<Longrightarrow> first_k_ones n k = replicate n 0"
  by (simp add: first_k_ones_def)

lemma first_k_ones_all: "int n \<le> k \<Longrightarrow> first_k_ones n k = replicate n 1"
  by (simp add: first_k_ones_def min_def) linarith

lemma set_first_k_ones: "set (first_k_ones n k) \<subseteq> {0, 1}"
  by (auto simp: first_k_ones_def)

lemma generate_binary_at_x_top_n:
  "u \<noteq> ''percentile'' \<Longrightarrow>
     generate_binary_at_x xs (PyInt k) u = Inr (first_k_ones (length xs) k)"
  by (rule generate_binary_at_x_int) (simp add: cutoff_index_def)

lemma generate_binary_at_x_percentile:
  assumes "generate_binary_at_x xs c ''percentile'' = Inr b"
  shows "\<exists>q. as_float c = Inr (Finite q) \<and>
     b = first_k_ones (length xs) (trunc (fl (fl (of_nat (length xs)) * fl (q / 100))))"
proof -
  from assms obtain c' where c': "cutoff_index (length xs) c ''percentile'' = Inr c'"
    by (cases "cutoff_index (length xs) c ''percentile''") (auto simp: generate_binary_at_x_def)
  from cutoff_index_percentile[OF c'] obtain q where q: "as_float c = Inr (Finite q)"
    and k: "c' = PyInt (trunc (fl (fl (of_nat (length xs)) * fl (q / 100))))" by blast
  from generate_binary_at_x_int[OF c'[unfolded k]] assms q show ?thesis by auto
qed

lemma generate_binary_at_x_100:
  assumes "length xs \<le> 2 ^ 53"
  shows "generate_binary_at_x xs (PyInt 100) ''percentile'' = Inr (replicate (length xs) 1)"
proof -
  have n: "fl (of_nat (length xs)) = (of_nat (length xs) :: rat)" using assms by (rule fl_of_nat)
  have "(of_nat (length xs) :: rat) \<le> of_nat (2 ^ 53)" using assms by (simp only: of_nat_le_iff)
  then have "(of_nat (length xs) :: rat) \<le> 2 powi 53" by simp
  from to_double_range[OF _ this]
  have l: "to_double (of_nat (length xs)) = Finite (of_nat (length xs))" by (simp add: n)
  have "(100::rat) \<le> 2 powi 7" by simp
  from to_double_range[OF _ this] have h: "to_double 100 = Finite 100" by (simp add: fl_100)
  have "(1::rat) \<le> 2 powi 0" by simp
  from to_double_range[OF _ this] have o: "to_double 1 = Finite 1" by (simp add: fl_1)
  have "cutoff_index (length xs) (PyInt 100) ''percentile'' = Inr (PyInt (int (length xs)))"
    using l h o by (simp add: cutoff_index_def float_of_int_def trunc_def)
  from generate_binary_at_x_int[OF this] show ?thesis by (simp add: first_k_ones_all)
qed

lemma exact_percentile_index:
  assumes "0 \<le> q" and "n \<le> 2 ^ 53" and "fl (q / 100) = q / 100"
    and "fl (of_nat n * (q / 100)) = of_nat n * (q / 100)"
  shows "trunc (fl (fl (of_nat n) * fl (q / 100))) = \<lfloor>of_nat n * q / 100\<rfloor>"
proof -
  have e: "fl (fl (of_nat n) * fl (q / 100)) = of_nat n * q / 100"
    using assms by (simp only: fl_of_nat times_divide_eq_right)
  have "(0::rat) \<le> of_nat n * q / 100" using assms(1) by simp
  then show ?thesis unfolding e trunc_def by (simp only: if_True)
qed

text \<open>
  What the binarizer does guarantee. For every unit other than \<^verbatim>\<open>'percentile'\<close> (so for
  \<^verbatim>\<open>'top_n'\<close>) and every integer cutoff \<open>k\<close>, \<open>generate_binary_at_x\<close> returns the 0/1 vector of
  the length of the predictions whose first \<open>k\<close> positions, and only those, carry a 1. For
  the unit \<^verbatim>\<open>'percentile'\<close> the call returns for every percentile in \<open>(0, 100]\<close> on fewer than
  \<open>2^63\<close> predictions, and the positions marked are the first \<open>K\<close>, where \<open>K\<close> is the
  truncation of the double-precision product \<open>len * (q / 100.0)\<close>: this is
  \<open>floor (n * q / 100)\<close> when neither float operation rounds, and percentile 100 gives the
  all-one vector. A vector with cutoff index at most 0 is all zeros, one with cutoff index
  at least its length is all ones.
\<close>

lemma generate_binary_at_x_cutoff:
  "(u \<noteq> ''percentile'' \<longrightarrow>
      generate_binary_at_x xs (PyInt k) u = Inr (first_k_ones (length xs) k))
   \<and> (\<forall>b. generate_binary_at_x xs c ''percentile'' = Inr b \<longrightarrow>
        (\<exists>q. as_float c = Inr (Finite q) \<and>
           b = first_k_ones (length xs) (trunc (fl (fl (of_nat (length xs)) * fl (q / 100))))))
   \<and> (is_percentile c \<and> length xs < 2 ^ 63 \<longrightarrow>
        (\<exists>b. generate_binary_at_x xs c ''percentile'' = Inr b))
   \<and> (0 \<le> r \<and> length xs \<le> 2 ^ 53 \<and> fl (r / 100) = r / 100
        \<and> fl (of_nat (length xs) * (r / 100)) = of_nat (length xs) * (r / 100) \<longrightarrow>
        trunc (fl (fl (of_nat (length xs)) * fl (r / 100))) = \<lfloor>of_nat (length xs) * r / 100\<rfloor>)
   \<and> (length xs \<le> 2 ^ 53 \<longrightarrow>
        generate_binary_at_x xs (PyInt 100) ''percentile'' = Inr (replicate (length xs) 1))
   \<and> length (first_k_ones m j) = m
   \<and> set (first_k_ones m j) \<subseteq> {0, 1}
   \<and> marked (first_k_ones m j) = {i. i < m \<and> int i < j}
   \<and> (j \<le> 0 \<longrightarrow> first_k_ones m j = replicate m 0)
   \<and> (int m \<le> j \<longrightarrow> first_k_ones m j = replicate m 1)"
proof -
  have "is_percentile c \<and> length xs < 2 ^ 63 \<longrightarrow>
        (\<exists>b. generate_binary_at_x xs c ''percentile'' = Inr b)"
  proof
    assume "is_percentile c \<and> length xs < 2 ^ 63"
    then obtain k' where "cutoff_index (length xs) c ''percentile'' = Inr (PyInt k')"
      using cutoff_index_percentile_returns by blast
    from generate_binary_at_x_int[OF this] show "\<exists>b. generate_binary_at_x xs c ''percentile'' = Inr b"
      by blast
  qed
  then show ?thesis
    using generate_binary_at_x_top_n[of u xs k] generate_binary_at_x_percentile[of xs c]
      exact_percentile_index[of r "length xs"] generate_binary_at_x_100[of xs]
      length_first_k_ones[of m j] set_first_k_ones[of m j] marked_first_k_ones[of m j]
      first_k_ones_nonpos[of j m] first_k_ones_all[of m j]
    by blast
qed

lemma generate_binary_at_x_percentile_int:
  assumes "0 < i" and "i \<le> 100" and "length xs < 2 ^ 63"
  shows "generate_binary_at_x xs (PyInt i) ''percentile'' =
     Inr (first_k_ones (length xs) (trunc (fl (fl (of_nat (length xs)) * fl (of_int i / 100)))))"
proof -
  have "is_percentile (PyInt i)" using assms by simp
  from cutoff_index_percentile_returns[OF this assms(3)] obtain k
    where k: "cutoff_index (length xs) (PyInt i) ''percentile'' = Inr (PyInt k)" by blast
  from cutoff_index_percentile[OF k] obtain q where q: "as_float (PyInt i) = Inr (Finite q)"
    and kq: "k = trunc (fl (fl (of_nat (length xs)) * fl (q / 100)))" by auto
  from q have "q = fl (of_int i)" by (auto dest: float_of_int_Inr)
  moreover have "i \<le> 2 ^ 53" using assms(2) by simp
  ultimately have "q = of_int i" using fl_of_int_pos[OF assms(1)] by simp
  with generate_binary_at_x_int[OF k] kq show ?thesis by simp
qed

lemma index_100_29: "trunc (fl (fl 100 * fl (29 / 100))) = 28"
  by code_simp

lemma index_4_50: "trunc (fl (fl 4 * fl (1 / 2))) = 2"
  by code_simp

lemma index_4_25: "trunc (fl (fl 4 * fl (1 / 4))) = 1"
  by code_simp

lemma first_k_ones_4:
  "first_k_ones 4 0 = [0, 0, 0, 0]" "first_k_ones 4 1 = [1, 0, 0, 0]"
  "first_k_ones 4 2 = [1, 1, 0, 0]" "replicate 4 (1::int) = [1, 1, 1, 1]"
  by code_simp+

text \<open>
  Claim C1 says that under the unit \<^verbatim>\<open>'percentile'\<close> exactly the first
  \<open>floor (n * cutoff / 100)\<close> positions are 1. The code does not do that on 100 predictions
  with percentile 29: \<open>29 / 100.0\<close> rounds to a double just below 0.29, the product with 100
  rounds to a double just below 29, and \<^verbatim>\<open>int\<close> truncates it to 28. So the code marks 28
  positions, position 28 (the 29th) is left 0, although \<open>floor (100 * 29 / 100) = 29\<close> and
  although the same cutoff taken as \<^verbatim>\<open>'top_n'\<close> marks 29 positions.
\<close>

theorem generate_binary_at_x_floor_counterexample:
  "generate_binary_at_x (replicate 100 (0::nat)) (PyInt 29) ''percentile''
     = Inr (first_k_ones 100 28)
   \<and> 28 \<notin> marked (first_k_ones 100 28)
   \<and> \<lfloor>(100::rat) * 29 / 100\<rfloor> = 29
   \<and> generate_binary_at_x (replicate 100 (0::nat)) (PyInt 29) ''top_n''
     = Inr (first_k_ones 100 29)
   \<and> 28 \<in> marked (first_k_ones 100 29)"
  using generate_binary_at_x_percentile_int[of 29 "replicate 100 (0::nat)"]
    generate_binary_at_x_top_n[of "''top_n''" "replicate 100 (0::nat)" 29]
  by (simp add: index_100_29 marked_first_k_ones)

lemma percentile_marked_mono:
  assumes "is_pynum p1" and "is_pynum p2" and "num_lt p1 p2"
    and "generate_binary_at_x xs p1 ''percentile'' = Inr b1"
    and "generate_binary_at_x xs p2 ''percentile'' = Inr b2"
  shows "marked b1 \<subseteq> marked b2"
proof -
  from generate_binary_at_x_percentile[OF assms(4)] obtain q1 where
    q1: "as_float p1 = Inr (Finite q1)" and
    b1: "b1 = first_k_ones (length xs) (trunc (fl (fl (of_nat (length xs)) * fl (q1 / 100))))"
    by blast
  from generate_binary_at_x_percentile[OF assms(5)] obtain q2 where
    q2: "as_float p2 = Inr (Finite q2)" and
    b2: "b2 = first_k_ones (length xs) (trunc (fl (fl (of_nat (length xs)) * fl (q2 / 100))))"
    by blast
  have "q1 \<le> q2" using assms(1-3) q1 q2 by (rule as_float_mono)
  from percentile_index_mono[OF this, of "length xs"] show ?thesis
    unfolding b1 b2 marked_first_k_ones by auto
qed

text \<open>
  Claim C6. For percentile cutoffs \<open>p1 < p2\<close> (Python numbers), the positions marked 1 by
  \<open>generate_binary_at_x\<close> on the same predictions under \<open>p1\<close> are among those marked under
  \<open>p2\<close>, whenever both calls return; and both calls do return when the cutoffs are
  percentiles of the data model and the predictions are fewer than \<open>2^63\<close>.
\<close>

theorem generate_binary_at_x_percentile_monotone:
  assumes "is_pynum p1" and "is_pynum p2" and "num_lt p1 p2"
  shows "(\<forall>b1 b2. generate_binary_at_x xs p1 ''percentile'' = Inr b1
            \<and> generate_binary_at_x xs p2 ''percentile'' = Inr b2
          \<longrightarrow> marked b1 \<subseteq> marked b2)
     \<and> (is_percentile p1 \<and> is_percentile p2 \<and> length xs < 2 ^ 63 \<longrightarrow>
          (\<exists>b1 b2. generate_binary_at_x xs p1 ''percentile'' = Inr b1
            \<and> generate_binary_at_x xs p2 ''percentile'' = Inr b2))"
proof (intro conjI allI impI)
  fix b1 b2
  assume a: "generate_binary_at_x xs p1 ''percentile'' = Inr b1
            \<and> generate_binary_at_x xs p2 ''percentile'' = Inr b2"
  show "marked b1 \<subseteq> marked b2"
    using assms conjunct1[OF a] conjunct2[OF a] by (rule percentile_marked_mono)
next
  assume a: "is_percentile p1 \<and> is_percentile p2 \<and> length xs < 2 ^ 63"
  then obtain k1 k2 where "cutoff_index (length xs) p1 ''percentile'' = Inr (PyInt k1)"
    "cutoff_index (length xs) p2 ''percentile'' = Inr (PyInt k2)"
    using cutoff_index_percentile_returns by blast
  then show "\<exists>b1 b2. generate_binary_at_x xs p1 ''percentile'' = Inr b1
            \<and> generate_binary_at_x xs p2 ''percentile'' = Inr b2"
    using generate_binary_at_x_int by blast
qed

text \<open>Witness for C6: four predictions, percentiles 25 and 50.\<close>

theorem generate_binary_at_x_percentile_monotone_witness:
  "is_pynum (PyInt 25) \<and> is_pynum (PyInt 50) \<and> num_lt (PyInt 25) (PyInt 50)
   \<and> generate_binary_at_x (replicate 4 (0::nat)) (PyInt 25) ''percentile'' = Inr [1, 0, 0, 0]
   \<and> generate_binary_at_x (replicate 4 (0::nat)) (PyInt 50) ''percentile'' = Inr [1, 1, 0, 0]
   \<and> marked [1, 0, 0, 0] \<subseteq> marked [1, 1, 0, 0]"
proof -
  have 1: "generate_binary_at_x (replicate 4 (0::nat)) (PyInt 25) ''percentile'' = Inr [1, 0, 0, 0]"
    using generate_binary_at_x_percentile_int[of 25 "replicate 4 (0::nat)"]
    by (simp add: index_4_25 first_k_ones_4)
  have 2: "generate_binary_at_x (replicate 4 (0::nat)) (PyInt 50) ''percentile'' = Inr [1, 1, 0, 0]"
    using generate_binary_at_x_percentile_int[of 50 "replicate 4 (0::nat)"]
    by (simp add: index_4_50 first_k_ones_4)
  have h: "is_pynum (PyInt 25)" "is_pynum (PyInt 50)" "num_lt (PyInt 25) (PyInt 50)" by simp_all
  from generate_binary_at_x_percentile_monotone[OF h, of "replicate 4 (0::nat)"] 1 2
  have "marked [1, 0, 0, 0] \<subseteq> marked [1, 1, 0, 0]" by blast
  with 1 2 h show ?thesis by blast
qed

text \<open>Four predictions under top-2, percentile 100 and top-0.\<close>

lemma generate_binary_at_x_cutoff_example:
  "generate_binary_at_x (replicate 4 (0::nat)) (PyInt 2) ''top_n'' = Inr [1, 1, 0, 0]
   \<and> generate_binary_at_x (replicate 4 (0::nat)) (PyInt 100) ''percentile'' = Inr [1, 1, 1, 1]
   \<and> generate_binary_at_x (replicate 4 (0::nat)) (PyInt 0) ''top_n'' = Inr [0, 0, 0, 0]"
proof -
  have t: "''top_n'' \<noteq> ''percentile''" by simp
  from generate_binary_at_x_cutoff[of "''top_n''" "replicate 4 (0::nat)" 2 "PyInt 50" 50 4 2] t
  have a: "generate_binary_at_x (replicate 4 (0::nat)) (PyInt 2) ''top_n'' = Inr (first_k_ones 4 2)"
    and c: "generate_binary_at_x (replicate 4 (0::nat)) (PyInt 100) ''percentile'' = Inr (replicate 4 1)"
    by simp_all
  from generate_binary_at_x_cutoff[of "''top_n''" "replicate 4 (0::nat)" 0 "PyInt 50" 50 4 0] t
  have d: "generate_binary_at_x (replicate 4 (0::nat)) (PyInt 0) ''top_n'' = Inr (first_k_ones 4 0)"
    by simp
  show ?thesis using a c d by (simp only: first_k_ones_4) 
qed

section \<open>Properties of the registry and of the constructor\<close>

lemma validate_metrics_rejects:
  assumes "(name, met) \<in> set cm"
    and "greater_is_better met = None \<or> (\<exists>v. greater_is_better met = Some v \<and> \<not> in_True_False v)"
  shows "validate_metrics cm = Inl ValueError"
  using assms
proof (induction cm)
  case Nil
  then show ?case by simp
next
  case (Cons a cm)
  obtain n m where a: "a = (n, m)" by (cases a)
  show ?case
  proof (cases "(name, met) = a")
    case True
    then show ?thesis using Cons.prems(2) a by (auto split: option.splits)
  next
    case False
    then have "(name, met) \<in> set cm" using Cons.prems(1) by auto
    from Cons.IH[OF this Cons.prems(2)] show ?thesis
      using a by (auto split: option.splits)
  qed
qed

lemma validate_metrics_accepts:
  "validate_metrics cm = Inr u \<longleftrightarrow>
     (\<forall>(name, met) \<in> set cm. \<exists>v. greater_is_better met = Some v \<and> in_True_False v)"
  by (induction cm) (auto split: option.splits if_splits)

lemma init_rejects:
  assumes "(name, met) \<in> set cm"
    and "greater_is_better met = None \<or> (\<exists>v. greater_is_better met = Some v \<and> \<not> in_True_False v)"
  shows "init mgs tmgs engine seed (Some cm) now w = (Inl ValueError, w)"
proof -
  have "cm \<noteq> []" using assms(1) by auto
  then show ?thesis
    using validate_metrics_rejects[OF assms] by (simp add: init_def Let_def)
qed

lemma dict_update_append: "dict_update d (xs @ ys) = dict_update (dict_update d xs) ys"
  by (induction xs arbitrary: d) auto

lemma dict_update_notin: "k \<notin> fst ` set kvs \<Longrightarrow> dict_update d kvs k = d k"
  by (induction kvs arbitrary: d) auto

lemma dict_update_distinct:
  "distinct (map fst kvs) \<Longrightarrow> (k, v) \<in> set kvs \<Longrightarrow> dict_update d kvs k = Some v"
proof (induction kvs arbitrary: d)
  case Nil
  then show ?case by simp
next
  case (Cons a kvs)
  obtain k' v' where a: "a = (k', v')" by (cases a)
  show ?case
  proof (cases "(k, v) = a")
    case True
    then have "k \<notin> fst ` set kvs" using Cons.prems(1) a by auto
    then show ?thesis using True a by (simp add: dict_update_notin)
  next
    case False
    then have "(k, v) \<in> set kvs" using Cons.prems(2) by auto
    then show ?thesis using Cons.IH Cons.prems(1) a by simp
  qed
qed

section \<open>Properties of the generator\<close>

lemma or_raise_Inr: "or_raise r f = Inr y \<longleftrightarrow> (\<exists>x. r = Inr x \<and> f x = Inr y)"
  by (cases r) auto

lemma or_raise_Inl: "or_raise r f = Inl e \<longleftrightarrow> (r = Inl e \<or> (\<exists>x. r = Inr x \<and> f x = Inl e))"
  by (cases r) auto

lemma for_each_Inr:
  "for_each f xs = Inr ys \<Longrightarrow> list_all2 (\<lambda>x y. f x = Inr y) xs ys"
  by (induction xs arbitrary: ys) (auto simp: or_raise_Inr)

lemma for_each_all_Inr:
  "list_all2 (\<lambda>x y. f x = Inr y) xs ys \<Longrightarrow> for_each f xs = Inr ys"
  by (induction xs ys rule: list_all2_induct) auto

lemma for_each_Inl:
  "x \<in> set xs \<Longrightarrow> f x = Inl e \<Longrightarrow> \<exists>e'. for_each f xs = Inl e'"
proof (induction xs)
  case Nil
  then show ?case by simp
next
  case (Cons a xs)
  show ?case
  proof (cases "f a")
    case (Inl e1)
    then show ?thesis by simp
  next
    case (Inr y)
    show ?thesis
    proof (cases "x = a")
      case True
      then show ?thesis using Cons.prems(2) Inr by simp
    next
      case False
      then have "x \<in> set xs" using Cons.prems(1) by simp
      from Cons.IH[OF this Cons.prems(2)] obtain e' where "for_each f xs = Inl e'" by blast
      then show ?thesis using Inr by simp
    qed
  qed
qed

lemma for_each_cong:
  "(\<And>x. x \<in> set xs \<Longrightarrow> f x = g x) \<Longrightarrow> for_each f xs = for_each g xs"
  by (induction xs) auto

lemma for_each_elem:
  assumes "for_each f xs = Inr ys" and "y \<in> set ys"
  shows "\<exists>x \<in> set xs. f x = Inr y"
  using for_each_Inr[OF assms(1)] assms(2)
  by (induction xs ys rule: list_all2_induct) auto

lemma count_ones_count_list: "count_ones xs = count_list xs 1"
  by (induction xs) (simp_all add: count_ones_def)

lemma count_positive_count_list: "count_positive ls = count_list ls (Finite 1)"
  by (induction ls) (simp_all add: count_positive_def)

lemma make_evaluation_Inr:
  assumes "make_evaluation str_of self name met tc proba binary labels mt pc = Inr e"
  shows "num_labeled_examples e = length labels
     \<and> num_labeled_above_threshold e = count_ones binary
     \<and> num_positive_labels e = count_positive labels
     \<and> table_for mt = Some (row_class e)
     \<and> metric e = name \<and> row_sort_seed e = sort_seed self"
  using assms
  by (auto simp: make_evaluation_def or_raise_Inr split: option.splits)

lemma generate_evaluations_elem:
  assumes "generate_evaluations str_of w self names pl tc proba binary labels mt = Inr evs"
    and "e \<in> set evs"
  shows "\<exists>name met pc. name \<in> set names \<and> pc \<in> set pl
     \<and> self_available_metrics w self name = Some met
     \<and> make_evaluation str_of self name met tc proba binary labels mt pc = Inr e"
proof -
  let ?body = "\<lambda>metric_name.
             case self_available_metrics w self metric_name of
               Some met \<Rightarrow>
                 for_each
                   (make_evaluation str_of self metric_name met tc
                      proba binary labels mt)
                   pl
             | None \<Rightarrow> Inl AttributeError"
  from assms(1) obtain per where per: "for_each ?body names = Inr per" and evs: "evs = concat per"
    by (auto simp: generate_evaluations_def or_raise_Inr)
  from assms(2) evs obtain es where es: "es \<in> set per" "e \<in> set es" by auto
  from for_each_elem[OF per es(1)] obtain name where name: "name \<in> set names" "?body name = Inr es"
    by blast
  then obtain met where met: "self_available_metrics w self name = Some met"
    and run: "for_each (make_evaluation str_of self name met tc proba binary labels mt) pl = Inr es"
    by (auto split: option.splits)
  from for_each_elem[OF run es(2)] obtain pc where "pc \<in> set pl"
    "make_evaluation str_of self name met tc proba binary labels mt pc = Inr e" by blast
  with name met show ?thesis by blast
qed

lemma generate_evaluations_row_class:
  assumes "generate_evaluations str_of w self names pl tc proba binary labels mt = Inr evs"
    and "e \<in> set evs"
  shows "table_for mt = Some (row_class e)"
  using generate_evaluations_elem[OF assms] make_evaluation_Inr by blast

lemma generate_evaluations_unknown:
  assumes "name \<in> set names" and "self_available_metrics w self name = None"
  shows "\<exists>e. generate_evaluations str_of w self names pl tc proba binary labels mt = Inl e"
proof -
  let ?body = "\<lambda>metric_name.
             case self_available_metrics w self metric_name of
               Some met \<Rightarrow>
                 for_each
                   (make_evaluation str_of self metric_name met tc
                      proba binary labels mt)
                   pl
             | None \<Rightarrow> Inl AttributeError"
  have "?body name = Inl AttributeError" using assms(2) by simp
  from for_each_Inl[of name names ?body AttributeError, OF assms(1) this] show ?thesis
    by (auto simp: generate_evaluations_def)
qed

lemma generate_evaluations_first_unknown:
  assumes "self_available_metrics w self name = None"
  shows "generate_evaluations str_of w self (name # names) pl tc proba binary labels mt
     = Inl AttributeError"
  using assms by (simp add: generate_evaluations_def)

section \<open>Properties of the writer and of the orchestrator\<close>

lemma rows_of_set_rows: "rows_of t' (set_rows t rs w) = (if t' = t then rs else rows_of t' w)"
  by (cases t; cases t') simp_all

lemma available_metrics_set_rows: "available_metrics (set_rows t rs w) = available_metrics w"
  by (cases t) simp_all

lemma set_rows_set_rows: "set_rows t rs (set_rows t rs' w) = set_rows t rs w"
  by (cases t) simp_all

lemma add_all_same_class:
  "\<forall>e \<in> set es. row_class e = t \<Longrightarrow> add_all es w = set_rows t (rows_of t w @ es) w"
proof (induction es arbitrary: w)
  case Nil
  then show ?case by (cases t) simp_all
next
  case (Cons e es)
  then show ?case
    by (simp add: add_row_def rows_of_set_rows set_rows_set_rows)
qed

lemma row_class_stamp: "row_class (stamp mid st et fr e) = row_class e"
  by (simp add: stamp_def)

lemma under_key_stamp: "under_key mid st et fr (stamp mid st et fr e)"
  by (simp add: stamp_def under_key_def)

lemma write_to_db_result:
  assumes "db_engine self" and "table_for mt = Some t" and "\<forall>e \<in> set evs. row_class e = t"
  shows "write_to_db self mid st et fr evs mt w =
     (None, set_rows t (filter (\<lambda>e. \<not> under_key mid st et fr e) (rows_of t w)
                          @ map (stamp mid st et fr) evs) w)"
proof -
  have "\<forall>e \<in> set (map (stamp mid st et fr) evs). row_class e = t"
    using assms(3) by (simp add: row_class_stamp)
  from add_all_same_class[OF this] show ?thesis
    using assms(1,2) by (simp add: write_to_db_def rows_of_set_rows set_rows_set_rows)
qed

lemma filter_stamped:
  "filter (under_key mid st et fr) (map (stamp mid st et fr) evs) = map (stamp mid st et fr) evs"
  "filter (\<lambda>e. \<not> under_key mid st et fr e) (map (stamp mid st et fr) evs) = []"
  by (induction evs) (simp_all add: under_key_stamp)

lemma write_to_db_twice:
  assumes "db_engine self" and "table_for mt = Some t" and "\<forall>e \<in> set evs. row_class e = t"
    and "write_to_db self mid st et fr evs mt w = (r, w1)"
  shows "r = None"
    and "write_to_db self mid st et fr evs mt w1 = (None, w1)"
    and "filter (under_key mid st et fr) (rows_of t w1) = map (stamp mid st et fr) evs"
    and "filter (\<lambda>e. \<not> under_key mid st et fr e) (rows_of t w1)
           = filter (\<lambda>e. \<not> under_key mid st et fr e) (rows_of t w)"
    and "t' \<noteq> t \<Longrightarrow> rows_of t' w1 = rows_of t' w"
    and "available_metrics w1 = available_metrics w"
proof -
  let ?K = "under_key mid st et fr"
  let ?S = "map (stamp mid st et fr) evs"
  from assms(4) write_to_db_result[OF assms(1-3), of mid st et fr w]
  have r: "r = None" and w1: "w1 = set_rows t (filter (\<lambda>e. \<not> ?K e) (rows_of t w) @ ?S) w"
    by simp_all
  show "r = None" by (rule r)
  show "write_to_db self mid st et fr evs mt w1 = (None, w1)"
    unfolding write_to_db_result[OF assms(1-3)]
    by (simp add: w1 rows_of_set_rows set_rows_set_rows filter_stamped)
  show "filter ?K (rows_of t w1) = ?S"
    by (simp add: w1 rows_of_set_rows filter_stamped)
  show "filter (\<lambda>e. \<not> ?K e) (rows_of t w1) = filter (\<lambda>e. \<not> ?K e) (rows_of t w)"
    by (simp add: w1 rows_of_set_rows filter_stamped)
  show "t' \<noteq> t \<Longrightarrow> rows_of t' w1 = rows_of t' w"
    by (simp add: w1 rows_of_set_rows)
  show "available_metrics w1 = available_metrics w"
    by (simp add: w1 available_metrics_set_rows)
qed

text \<open>The generation reads the state only through the registry.\<close>

lemma evaluations_for_registry:
  assumes "available_metrics w1 = available_metrics w"
  shows "evaluations_for str_of sort_fn w1 self pp ls mt = evaluations_for str_of sort_fn w self pp ls mt"
proof -
  have g: "generate_evaluations str_of w1 self = generate_evaluations str_of w self"
    by (intro ext) (simp add: generate_evaluations_def self_available_metrics_def assms)
  have t: "evaluate_threshold str_of w1 self = evaluate_threshold str_of w self"
    by (intro ext) (unfold evaluate_threshold_def g, rule refl)
  have "evaluate_group str_of w1 self = evaluate_group str_of w self"
    by (intro ext) (unfold evaluate_group_def g t, rule refl)
  then show ?thesis unfolding evaluations_for_def by (simp only:)
qed

lemma evaluate_group_row_class:
  assumes "evaluate_group str_of w self pp pps lss mt g = Inr evs" and "e \<in> set evs"
  shows "table_for mt = Some (row_class e)"
proof -
  let ?pl = "case parameters g of None \<Rightarrow> [[]] | Some ps \<Rightarrow> ps"
  from assms(1) obtain full pct top where
    full: "(case thresholds g of
           None \<Rightarrow>
             or_raise (generate_binary_at_x pps (PyInt 100) ''percentile'')
               (\<lambda>all_ones.
                  generate_evaluations str_of w self (metrics g) ?pl []
                    (Some pp) all_ones lss mt)
         | Some t \<Rightarrow> Inr []) = Inr full"
    and pct: "for_each (evaluate_threshold str_of w self g ?pl pps lss mt ''percentile'' ''pct'')
           (case thresholds g of None \<Rightarrow> [] | Some t \<Rightarrow> percentiles t) = Inr pct"
    and top: "for_each (evaluate_threshold str_of w self g ?pl pps lss mt ''top_n'' ''abs'')
           (case thresholds g of None \<Rightarrow> [] | Some t \<Rightarrow> top_n t) = Inr top"
    and evs: "evs = full @ concat pct @ concat top"
    by (auto simp: evaluate_group_def Let_def or_raise_Inr)
  have thr: "\<And>u k x es. evaluate_threshold str_of w self g ?pl pps lss mt u k x = Inr es \<Longrightarrow>
      e \<in> set es \<Longrightarrow> table_for mt = Some (row_class e)"
    by (auto simp: evaluate_threshold_def or_raise_Inr dest: generate_evaluations_row_class)
  from assms(2) evs consider "e \<in> set full" | "e \<in> set (concat pct)" | "e \<in> set (concat top)"
    by auto
  then show ?thesis
  proof cases
    case 1
    then show ?thesis using full
      by (auto simp: or_raise_Inr split: option.splits dest: generate_evaluations_row_class)
  next
    case 2
    then obtain es where "es \<in> set pct" "e \<in> set es" by auto
    with for_each_elem[OF pct] thr show ?thesis by blast
  next
    case 3
    then obtain es where "es \<in> set top" "e \<in> set es" by auto
    with for_each_elem[OF top] thr show ?thesis by blast
  qed
qed

lemma evaluations_for_row_class:
  assumes "evaluations_for str_of sort_fn w self pp ls mt = Inr evs" and "e \<in> set evs"
  shows "table_for mt = Some (row_class e)"
proof -
  from assms(1) obtain pps lss gs per where
    per: "for_each (evaluate_group str_of w self pp pps lss mt) gs = Inr per"
    and evs: "evs = concat per"
    by (auto simp: evaluations_for_def or_raise_Inr)
  from assms(2) evs obtain es where es: "es \<in> set per" "e \<in> set es" by auto
  from for_each_elem[OF per es(1)] es(2) show ?thesis
    by (blast dest: evaluate_group_row_class)
qed

lemma evaluations_for_recognised:
  assumes "evaluations_for str_of sort_fn w self pp ls mt = Inr evs"
  shows "\<exists>t. table_for mt = Some t"
  using assms by (auto simp: evaluations_for_def or_raise_Inr table_for_def split: if_splits)

lemma evaluate_error_keeps_state:
  "evaluate str_of sort_fn self pp ls mid st et fr mt w = (Some e, w') \<Longrightarrow> w' = w"
  by (auto simp: evaluate_def write_to_db_def split: sum.splits if_splits option.splits)

text \<open>Two writes under one key, of batches of the class of the table: the second replaces
  the first.\<close>

lemma write_to_db_replace:
  assumes "db_engine self" and "table_for mt = Some t"
    and "\<forall>e \<in> set evs1. row_class e = t" and "\<forall>e \<in> set evs2. row_class e = t"
  shows "\<exists>w1 w2. write_to_db self mid st et fr evs1 mt w = (None, w1)
     \<and> write_to_db self mid st et fr evs2 mt w1 = (None, w2)
     \<and> filter (under_key mid st et fr) (rows_of t w2) = map (stamp mid st et fr) evs2
     \<and> filter (\<lambda>e. \<not> under_key mid st et fr e) (rows_of t w2)
           = filter (\<lambda>e. \<not> under_key mid st et fr e) (rows_of t w)
     \<and> (\<forall>t'. t' \<noteq> t \<longrightarrow> rows_of t' w2 = rows_of t' w)
     \<and> (evs2 = evs1 \<longrightarrow> w2 = w1)"
proof -
  let ?K = "under_key mid st et fr"
  let ?w1 = "set_rows t (filter (\<lambda>e. \<not> ?K e) (rows_of t w) @ map (stamp mid st et fr) evs1) w"
  let ?w2 = "set_rows t (filter (\<lambda>e. \<not> ?K e) (rows_of t ?w1) @ map (stamp mid st et fr) evs2) ?w1"
  have 1: "write_to_db self mid st et fr evs1 mt w = (None, ?w1)"
    by (rule write_to_db_result[OF assms(1-3)])
  have 2: "write_to_db self mid st et fr evs2 mt ?w1 = (None, ?w2)"
    by (rule write_to_db_result[OF assms(1,2,4)])
  have 3: "filter ?K (rows_of t ?w2) = map (stamp mid st et fr) evs2"
    by (simp add: rows_of_set_rows filter_stamped)
  have 4: "filter (\<lambda>e. \<not> ?K e) (rows_of t ?w2) = filter (\<lambda>e. \<not> ?K e) (rows_of t w)"
    by (simp add: rows_of_set_rows filter_stamped)
  have 5: "\<forall>t'. t' \<noteq> t \<longrightarrow> rows_of t' ?w2 = rows_of t' w"
    by (simp add: rows_of_set_rows)
  have 6: "evs2 = evs1 \<longrightarrow> ?w2 = ?w1"
    by (simp add: rows_of_set_rows set_rows_set_rows filter_stamped)
  from 1 2 3 4 5 6 show ?thesis by blast
qed

section \<open>The example inputs, evaluated\<close>

lemma lower_Test: "lower ''Test'' = ''test''"
  by code_simp


lemma table_for_Test: "table_for ''Test'' = Some TestEvaluation"
  by (simp add: table_for_def lower_Test)


lemma table_for_None: "table_for mt = None \<longleftrightarrow> lower mt \<noteq> ''train'' \<and> lower mt \<noteq> ''test''"
  by (simp add: table_for_def)

lemma sorted_example:
  "example_sort [Finite (1 / 4), Finite (3 / 4)] [Finite 0, Finite 1] 1
     = Inr ([Finite (3 / 4), Finite (1 / 4)], [Finite 1, Finite 0])"
  by (simp add: example_sort_def sort_predictions_and_labels_def key_lt_def)

lemma all_ones_example:
  "generate_binary_at_x [Finite (3 / 4), Finite (1 / 4)] (PyInt 100) ''percentile'' = Inr [1, 1]"
  using generate_binary_at_x_100[of "[Finite (3 / 4), Finite (1 / 4)]"] by simp

lemma example_generate:
  "generate_evaluations (\<lambda>n. []) example_world example_evaluator [''first_score''] [[]] []
     (Some [Finite (1 / 4), Finite (3 / 4)]) [1, 1] [Finite 1, Finite 0] ''Test''
   = Inr [example_row]"
  by (simp add: generate_evaluations_def self_available_metrics_def example_world_def
      make_evaluation_def first_score_def table_for_Test parameter_string_def count_ones_def
      count_positive_def example_evaluator_def example_row_def)

lemma example_evaluations_for:
  "evaluations_for (\<lambda>n. []) example_sort example_world example_evaluator
     [Finite (1 / 4), Finite (3 / 4)] [Finite 0, Finite 1] ''Test'' = Inr [example_row]"
proof -
  have g: "metric_groups example_evaluator
     = [\<lparr> metrics = [''first_score''], parameters = None, thresholds = None \<rparr>]"
    by (simp add: example_evaluator_def)
  have s: "sort_seed example_evaluator = 1" by (simp add: example_evaluator_def)
  show ?thesis
    by (simp add: evaluations_for_def s sorted_example lower_Test g evaluate_group_def
        all_ones_example example_generate)
qed

lemma example_write:
  "write_to_db example_evaluator 1 10 20 ''1d'' [example_row] ''Test'' example_world
     = (None, example_world\<lparr> test_evaluations := [stamp 1 10 20 ''1d'' example_row] \<rparr>)"
  by (simp add: write_to_db_def table_for_Test example_evaluator_def example_world_def
      add_row_def example_row_def stamp_def)

lemma example_evaluate:
  "evaluate (\<lambda>n. []) example_sort example_evaluator
     [Finite (1 / 4), Finite (3 / 4)] [Finite 0, Finite 1] 1 10 20 ''1d'' ''Test'' example_world
   = (None, example_world\<lparr> test_evaluations := [stamp 1 10 20 ''1d'' example_row] \<rparr>)"
  using example_write by (simp add: evaluate_def example_evaluations_for)

section \<open>The claims\<close>

text \<open>
  Claim C2. Running the write twice in succession under one key
  (\<open>model_id\<close>, \<open>evaluation_start_time\<close>, \<open>evaluation_end_time\<close>, \<open>as_of_date_frequency\<close>,
  \<open>matrix_type\<close>) leaves under that key exactly the records of the second run, in their
  order, with no duplicate and nothing of the first run; rows under other keys and the other
  table are as they were before the first run; and a second run of the same batch changes
  nothing. This is stated for the writer, given an engine, a recognised \<open>matrix_type\<close> and
  batches of records of the table class that \<open>matrix_type\<close> names, and for the whole
  \<^verbatim>\<open>evaluate\<close> call, whose batches are always of that class: a call that succeeded leaves a
  state in which the same call succeeds again and changes nothing, the rows under the key
  being the stamped batch it generated.
\<close>

theorem write_to_db_idempotent:
  "(let key = (\<lambda>e. model_id e = Some mid \<and> evaluation_start_time e = Some st
                     \<and> evaluation_end_time e = Some et \<and> as_of_date_frequency e = Some fr);
        stamped = map (\<lambda>e. e\<lparr> model_id := Some mid, evaluation_start_time := Some st,
                              evaluation_end_time := Some et, as_of_date_frequency := Some fr \<rparr>)
    in
     (db_engine self \<and> table_for mt = Some t
        \<and> (\<forall>e \<in> set evs1. row_class e = t) \<and> (\<forall>e \<in> set evs2. row_class e = t) \<longrightarrow>
        (\<exists>w1 w2. write_to_db self mid st et fr evs1 mt w = (None, w1)
           \<and> write_to_db self mid st et fr evs2 mt w1 = (None, w2)
           \<and> filter key (rows_of t w2) = stamped evs2
           \<and> filter (\<lambda>e. \<not> key e) (rows_of t w2) = filter (\<lambda>e. \<not> key e) (rows_of t w)
           \<and> (\<forall>t'. t' \<noteq> t \<longrightarrow> rows_of t' w2 = rows_of t' w)
           \<and> (evs2 = evs1 \<longrightarrow> w2 = w1)))
     \<and> (\<forall>w1. evaluate str_of sort_fn self pp ls mid st et fr mt w = (None, w1) \<longrightarrow>
           evaluate str_of sort_fn self pp ls mid st et fr mt w1 = (None, w1)
           \<and> (\<exists>t batch. table_for mt = Some t
                 \<and> evaluations_for str_of sort_fn w self pp ls mt = Inr batch
                 \<and> (\<forall>e \<in> set batch. row_class e = t)
                 \<and> filter key (rows_of t w1) = stamped batch
                 \<and> filter (\<lambda>e. \<not> key e) (rows_of t w1) = filter (\<lambda>e. \<not> key e) (rows_of t w)
                 \<and> (\<forall>t'. t' \<noteq> t \<longrightarrow> rows_of t' w1 = rows_of t' w))))"
proof -
  let ?key = "under_key mid st et fr"
  let ?stamped = "map (stamp mid st et fr)"
  have 1: "db_engine self \<and> table_for mt = Some t
        \<and> (\<forall>e \<in> set evs1. row_class e = t) \<and> (\<forall>e \<in> set evs2. row_class e = t) \<longrightarrow>
        (\<exists>w1 w2. write_to_db self mid st et fr evs1 mt w = (None, w1)
           \<and> write_to_db self mid st et fr evs2 mt w1 = (None, w2)
           \<and> filter ?key (rows_of t w2) = ?stamped evs2
           \<and> filter (\<lambda>e. \<not> ?key e) (rows_of t w2) = filter (\<lambda>e. \<not> ?key e) (rows_of t w)
           \<and> (\<forall>t'. t' \<noteq> t \<longrightarrow> rows_of t' w2 = rows_of t' w)
           \<and> (evs2 = evs1 \<longrightarrow> w2 = w1))"
    using write_to_db_replace[of self mt t evs1 evs2 mid st et fr w] by blast
  have 2: "\<forall>w1. evaluate str_of sort_fn self pp ls mid st et fr mt w = (None, w1) \<longrightarrow>
           evaluate str_of sort_fn self pp ls mid st et fr mt w1 = (None, w1)
           \<and> (\<exists>t batch. table_for mt = Some t
                 \<and> evaluations_for str_of sort_fn w self pp ls mt = Inr batch
                 \<and> (\<forall>e \<in> set batch. row_class e = t)
                 \<and> filter ?key (rows_of t w1) = ?stamped batch
                 \<and> filter (\<lambda>e. \<not> ?key e) (rows_of t w1) = filter (\<lambda>e. \<not> ?key e) (rows_of t w)
                 \<and> (\<forall>t'. t' \<noteq> t \<longrightarrow> rows_of t' w1 = rows_of t' w))"
  proof (intro allI impI)
    fix w1
    assume e: "evaluate str_of sort_fn self pp ls mid st et fr mt w = (None, w1)"
    then obtain batch where b: "evaluations_for str_of sort_fn w self pp ls mt = Inr batch"
      and wr: "write_to_db self mid st et fr batch mt w = (None, w1)"
      by (auto simp: evaluate_def split: sum.splits)
    from evaluations_for_recognised[OF b] obtain t where t: "table_for mt = Some t" by blast
    have cls: "\<forall>e \<in> set batch. row_class e = t"
      using evaluations_for_row_class[OF b] t by auto
    have eng: "db_engine self" using wr by (auto simp: write_to_db_def split: if_splits)
    note tw = write_to_db_twice[OF eng t cls wr]
    have "evaluations_for str_of sort_fn w1 self pp ls mt = Inr batch"
      using evaluations_for_registry[OF tw(6)] b by simp
    then have again: "evaluate str_of sort_fn self pp ls mid st et fr mt w1 = (None, w1)"
      using tw(2) by (simp add: evaluate_def)
    have "\<exists>t batch. table_for mt = Some t
                 \<and> evaluations_for str_of sort_fn w self pp ls mt = Inr batch
                 \<and> (\<forall>e \<in> set batch. row_class e = t)
                 \<and> filter ?key (rows_of t w1) = ?stamped batch
                 \<and> filter (\<lambda>e. \<not> ?key e) (rows_of t w1) = filter (\<lambda>e. \<not> ?key e) (rows_of t w)
                 \<and> (\<forall>t'. t' \<noteq> t \<longrightarrow> rows_of t' w1 = rows_of t' w)"
      using t b cls tw(3) tw(4) tw(5) by blast
    with again show "evaluate str_of sort_fn self pp ls mid st et fr mt w1 = (None, w1)
           \<and> (\<exists>t batch. table_for mt = Some t
                 \<and> evaluations_for str_of sort_fn w self pp ls mt = Inr batch
                 \<and> (\<forall>e \<in> set batch. row_class e = t)
                 \<and> filter ?key (rows_of t w1) = ?stamped batch
                 \<and> filter (\<lambda>e. \<not> ?key e) (rows_of t w1) = filter (\<lambda>e. \<not> ?key e) (rows_of t w)
                 \<and> (\<forall>t'. t' \<noteq> t \<longrightarrow> rows_of t' w1 = rows_of t' w))"
      by blast
  qed
  from 1 2 show ?thesis
    unfolding Let_def under_key_def[abs_def] stamp_def[abs_def] by (rule conjI)
qed

text \<open>An instance for C2: the example evaluator on two predictions, written and evaluated
  twice into the empty test table.\<close>

theorem write_to_db_idempotent_witness:
  "db_engine example_evaluator \<and> table_for ''Test'' = Some TestEvaluation
   \<and> row_class example_row = TestEvaluation
   \<and> write_to_db example_evaluator 1 10 20 ''1d'' [example_row] ''Test'' example_world
     = (None, example_world\<lparr> test_evaluations := [stamp 1 10 20 ''1d'' example_row] \<rparr>)
   \<and> write_to_db example_evaluator 1 10 20 ''1d'' [example_row] ''Test''
       (example_world\<lparr> test_evaluations := [stamp 1 10 20 ''1d'' example_row] \<rparr>)
     = (None, example_world\<lparr> test_evaluations := [stamp 1 10 20 ''1d'' example_row] \<rparr>)
   \<and> evaluate (\<lambda>n. []) example_sort example_evaluator
     [Finite (1 / 4), Finite (3 / 4)] [Finite 0, Finite 1] 1 10 20 ''1d'' ''Test'' example_world
     = (None, example_world\<lparr> test_evaluations := [stamp 1 10 20 ''1d'' example_row] \<rparr>)
   \<and> evaluate (\<lambda>n. []) example_sort example_evaluator
     [Finite (1 / 4), Finite (3 / 4)] [Finite 0, Finite 1] 1 10 20 ''1d'' ''Test''
     (example_world\<lparr> test_evaluations := [stamp 1 10 20 ''1d'' example_row] \<rparr>)
     = (None, example_world\<lparr> test_evaluations := [stamp 1 10 20 ''1d'' example_row] \<rparr>)"
proof -
  let ?W = "example_world\<lparr> test_evaluations := [stamp 1 10 20 ''1d'' example_row] \<rparr>"
  have h: "db_engine example_evaluator" "table_for ''Test'' = Some TestEvaluation"
    "row_class example_row = TestEvaluation"
    by (simp_all add: example_evaluator_def table_for_Test example_row_def)
  note inst = write_to_db_idempotent[unfolded Let_def,
      of example_evaluator "''Test''" TestEvaluation "[example_row]"
      "[example_row]" 1 10 20 "''1d''" example_world "\<lambda>n. []" example_sort
      "[Finite (1 / 4), Finite (3 / 4)]" "[Finite 0, Finite 1]"]
  from conjunct1[OF inst] h obtain w1 w2 where
    a: "write_to_db example_evaluator 1 10 20 ''1d'' [example_row] ''Test'' example_world = (None, w1)"
    and b: "write_to_db example_evaluator 1 10 20 ''1d'' [example_row] ''Test'' w1 = (None, w2)"
    and c: "w2 = w1"
    by auto
  have w1: "w1 = ?W" using a example_write by simp
  from conjunct2[OF inst] example_evaluate
  have d: "evaluate (\<lambda>n. []) example_sort example_evaluator
     [Finite (1 / 4), Finite (3 / 4)] [Finite 0, Finite 1] 1 10 20 ''1d'' ''Test'' ?W = (None, ?W)"
    by blast
  from h a b c w1 d example_evaluate show ?thesis by simp
qed

text \<open>
  Claim C3 says that a metric name missing from the registry makes the call fail with
  \<^verbatim>\<open>UnknownMetricError\<close>, nothing being persisted. The second half holds, the first does not:
  the evaluator whose only group asks for the unregistered name \<^verbatim>\<open>'nonexistent'\<close> fails with
  \<^verbatim>\<open>AttributeError\<close>, because \<^verbatim>\<open>metrics\<close> in \<^verbatim>\<open>raise metrics.UnknownMetricError()\<close> is the list of
  names, not the module. The state after the call is the state before it.
\<close>

theorem unknown_metric_raises_attribute_error:
  "evaluate (\<lambda>n. []) example_sort unknown_metric_evaluator
     [Finite (1 / 4), Finite (3 / 4)] [Finite 0, Finite 1] 1 10 20 ''1d'' ''Test'' example_world
   = (Some AttributeError, example_world)"
proof -
  have g: "metric_groups unknown_metric_evaluator
     = [\<lparr> metrics = [''nonexistent''], parameters = None, thresholds = None \<rparr>]"
    by (simp add: unknown_metric_evaluator_def)
  have s: "sort_seed unknown_metric_evaluator = 1" by (simp add: unknown_metric_evaluator_def)
  have u: "self_available_metrics example_world unknown_metric_evaluator ''nonexistent'' = None"
    by (simp add: self_available_metrics_def example_world_def)
  have "evaluations_for (\<lambda>n. []) example_sort example_world unknown_metric_evaluator
     [Finite (1 / 4), Finite (3 / 4)] [Finite 0, Finite 1] ''Test'' = Inl AttributeError"
    by (simp add: evaluations_for_def s sorted_example lower_Test g evaluate_group_def
        all_ones_example generate_evaluations_first_unknown[OF u])
  then show ?thesis by (simp add: evaluate_def)
qed

text \<open>
  Claim C4. On every successful call of \<^verbatim>\<open>_generate_evaluations\<close>, every record returned
  carries \<open>num_labeled_examples\<close> equal to the length of the labels passed in,
  \<open>num_labeled_above_threshold\<close> equal to the number of 1s in the binary predictions passed
  in, and \<open>num_positive_labels\<close> equal to the number of 1s among the labels; so the three
  counts are the same on all records of the call.
\<close>

theorem generate_evaluations_counts:
  assumes "generate_evaluations str_of w self names pl tc proba binary labels mt = Inr evs"
  shows "\<forall>e \<in> set evs.
     num_labeled_examples e = length labels
     \<and> num_labeled_above_threshold e = count_list binary 1
     \<and> num_positive_labels e = count_list labels (Finite 1)"
proof
  fix e
  assume "e \<in> set evs"
  from generate_evaluations_elem[OF assms this] obtain name met pc where
    "make_evaluation str_of self name met tc proba binary labels mt pc = Inr e" by blast
  from make_evaluation_Inr[OF this]
  show "num_labeled_examples e = length labels
     \<and> num_labeled_above_threshold e = count_list binary 1
     \<and> num_positive_labels e = count_list labels (Finite 1)"
    by (simp add: count_ones_count_list count_positive_count_list)
qed

text \<open>An instance for C4: the example group on three scores, with the binary vector 1, 0, 0
  and the labels 1, 0, 1, gives one record with the counts 3, 1 and 2.\<close>

theorem generate_evaluations_counts_witness:
  "(\<exists>e. generate_evaluations (\<lambda>n. []) example_world example_evaluator [''first_score''] [[]] []
       (Some [Finite (3 / 4), Finite (1 / 2), Finite (1 / 4)]) [1, 0, 0]
       [Finite 1, Finite 0, Finite 1] ''Test''
       = Inr [e]
     \<and> num_labeled_examples e = 3
     \<and> num_labeled_above_threshold e = 1
     \<and> num_positive_labels e = 2)"
proof -
  obtain e where e: "generate_evaluations (\<lambda>n. []) example_world example_evaluator
       [''first_score''] [[]] []
       (Some [Finite (3 / 4), Finite (1 / 2), Finite (1 / 4)]) [1, 0, 0]
       [Finite 1, Finite 0, Finite 1] ''Test''
       = Inr [e]"
    by (simp add: generate_evaluations_def self_available_metrics_def example_world_def
        make_evaluation_def first_score_def table_for_Test)
  from generate_evaluations_counts[OF e] have "num_labeled_examples e = 3
     \<and> num_labeled_above_threshold e = 1 \<and> num_positive_labels e = 2"
    by simp
  with e show ?thesis by blast
qed

text \<open>
  Claim C5 says that the continuous scores handed to the generator for an un-thresholded
  group are the sorted scores. They are not: \<^verbatim>\<open>evaluate\<close> passes \<^verbatim>\<open>predictions_proba\<close>, the scores
  in input order, next to the sorted labels. On the scores 0.25, 0.75 with labels 0, 1 the
  sorted scores begin with 0.75, yet the probe metric, which returns the first score it is
  given, records 0.25.
\<close>

theorem full_population_scores_unsorted:
  "example_sort [Finite (1 / 4), Finite (3 / 4)] [Finite 0, Finite 1] 1
     = Inr ([Finite (3 / 4), Finite (1 / 4)], [Finite 1, Finite 0])
   \<and> evaluate (\<lambda>n. []) example_sort example_evaluator
       [Finite (1 / 4), Finite (3 / 4)] [Finite 0, Finite 1] 1 10 20 ''1d'' ''Test'' example_world
     = (None, example_world\<lparr> test_evaluations := [stamp 1 10 20 ''1d'' example_row] \<rparr>)
   \<and> metric example_row = ''first_score''
   \<and> metric_value example_row = Finite (1 / 4)"
  using sorted_example example_evaluate by (simp add: example_row_def)

text \<open>
  Claim C7 says that construction fails when the \<^verbatim>\<open>greater_is_better\<close> attribute of a custom
  metric is not boolean. The test in the code is \<^verbatim>\<open>not in (True, False)\<close>, which compares with
  \<^verbatim>\<open>==\<close>: the int 1 equals \<^verbatim>\<open>True\<close>, so a function whose attribute is the int 1 passes,
  construction succeeds, and the function is in the registry.
\<close>

theorem init_accepts_int_attribute:
  "init [] [] True None
     (Some [(''m'', \<lparr> call = (\<lambda>p b l ps. Inr (Finite 0)),
                      greater_is_better = Some (PyNum (PyInt 1)) \<rparr>)])
     0 \<lparr> available_metrics = Map.empty, train_evaluations = [], test_evaluations = [] \<rparr>
   = (Inr \<lparr> metric_groups = [], training_metric_groups = [], db_engine = True, sort_seed = 0 \<rparr>,
      \<lparr> available_metrics =
           [''m'' \<mapsto> \<lparr> call = (\<lambda>p b l ps. Inr (Finite 0)),
                         greater_is_better = Some (PyNum (PyInt 1)) \<rparr>],
        train_evaluations = [], test_evaluations = [] \<rparr>)"
  by (simp add: init_def in_True_False_def trunc_def)



text \<open>
  Claim C9. The seed stored by the constructor is the one supplied only when that is truthy:
  for \<^verbatim>\<open>None\<close> and for 0 it is \<^verbatim>\<open>int(time.time())\<close>, for every other integer it is the
  integer supplied. A construction without custom metrics always succeeds.
\<close>

theorem init_sort_seed:
  "(\<forall>self w'. init mgs tmgs engine seed cm now w = (Inr self, w') \<longrightarrow>
      sort_seed self = (case seed of None \<Rightarrow> trunc now
                        | Some s \<Rightarrow> if s = 0 then trunc now else s))
   \<and> (\<exists>self. init mgs tmgs engine (Some 0) None now w = (Inr self, w)
        \<and> sort_seed self = trunc now)
   \<and> (s \<noteq> 0 \<longrightarrow> (\<exists>self. init mgs tmgs engine (Some s) None now w = (Inr self, w)
        \<and> sort_seed self = s))"
  by (auto simp: init_def Let_def split: option.splits sum.splits if_splits)

text \<open>An instance for C9: at the clock reading 1700.5 the seed 0 is replaced by 1700, the
  seed 7 is kept.\<close>

theorem init_sort_seed_witness:
  "(\<exists>self. init [] [] True (Some 0) None (3401 / 2)
        \<lparr> available_metrics = Map.empty, train_evaluations = [], test_evaluations = [] \<rparr>
      = (Inr self, \<lparr> available_metrics = Map.empty, train_evaluations = [],
                      test_evaluations = [] \<rparr>)
      \<and> sort_seed self = 1700)
   \<and> (\<exists>self. init [] [] True (Some 7) None (3401 / 2)
        \<lparr> available_metrics = Map.empty, train_evaluations = [], test_evaluations = [] \<rparr>
      = (Inr self, \<lparr> available_metrics = Map.empty, train_evaluations = [],
                      test_evaluations = [] \<rparr>)
      \<and> sort_seed self = 7)"
proof -
  have f: "\<lfloor>(3401::rat) / 2\<rfloor> = 1700" by (rule floor_unique) simp_all
  show ?thesis
    using init_sort_seed[of "[]" "[]" True "Some 0" None "3401 / 2"
      "\<lparr> available_metrics = Map.empty, train_evaluations = [], test_evaluations = [] \<rparr>" 7]
    by (simp add: trunc_def f)
qed

text \<open>
  Claim C10. The registry is a dict of the class, updated in place: after an evaluator has
  been constructed with custom metrics, each of those metrics is what every evaluator finds
  under its name: the new one, any that existed before, and any constructed afterwards
  (without custom metrics of its own). (The custom metrics are a dict, so their names are
  distinct.)
\<close>

theorem custom_metrics_shared:
  assumes "init mgs tmgs engine seed (Some cm) now w = (Inr self, w')"
    and "distinct (map fst cm)" and "(name, met) \<in> set cm"
  shows "(\<forall>other. self_available_metrics w' other name = Some met)
     \<and> (\<forall>mgs' tmgs' engine' seed' now'. \<exists>later.
          init mgs' tmgs' engine' seed' None now' w' = (Inr later, w')
          \<and> self_available_metrics w' later name = Some met)"
proof -
  have ne: "cm \<noteq> []" using assms(3) by auto
  from assms(1) ne have "w' = w\<lparr> available_metrics := dict_update (available_metrics w) cm \<rparr>"
    by (auto simp: init_def Let_def split: sum.splits)
  then have 1: "\<forall>other. self_available_metrics w' other name = Some met"
    using dict_update_distinct[OF assms(2,3)] by (simp add: self_available_metrics_def)
  then have 2: "\<forall>mgs' tmgs' engine' seed' now'. \<exists>later.
          init mgs' tmgs' engine' seed' None now' w' = (Inr later, w')
          \<and> self_available_metrics w' later name = Some met"
    by (simp add: init_def Let_def)
  from 1 2 show ?thesis by (rule conjI)
qed

text \<open>An instance for C10: before another evaluator is constructed with the probe metric, the
  example evaluator does not find it and its generator fails on the name; after, it finds
  it and the same call of the generator returns a record.\<close>

theorem custom_metrics_shared_witness:
  "init [] [] True None (Some [(''first_score'', first_score)]) 0
      \<lparr> available_metrics = Map.empty, train_evaluations = [], test_evaluations = [] \<rparr>
     = (Inr \<lparr> metric_groups = [], training_metric_groups = [], db_engine = True, sort_seed = 0 \<rparr>,
        example_world)
   \<and> self_available_metrics
        \<lparr> available_metrics = Map.empty, train_evaluations = [], test_evaluations = [] \<rparr>
        example_evaluator ''first_score'' = None
   \<and> generate_evaluations (\<lambda>n. [])
        \<lparr> available_metrics = Map.empty, train_evaluations = [], test_evaluations = [] \<rparr>
        example_evaluator [''first_score''] [[]] []
        (Some [Finite (1 / 4), Finite (3 / 4)]) [1, 1] [Finite 1, Finite 0] ''Test''
      = Inl AttributeError
   \<and> self_available_metrics example_world example_evaluator ''first_score'' = Some first_score
   \<and> generate_evaluations (\<lambda>n. []) example_world example_evaluator [''first_score''] [[]] []
        (Some [Finite (1 / 4), Finite (3 / 4)]) [1, 1] [Finite 1, Finite 0] ''Test''
      = Inr [example_row]"
proof -
  have i: "init [] [] True None (Some [(''first_score'', first_score)]) 0
      \<lparr> available_metrics = Map.empty, train_evaluations = [], test_evaluations = [] \<rparr>
     = (Inr \<lparr> metric_groups = [], training_metric_groups = [], db_engine = True, sort_seed = 0 \<rparr>,
        example_world)"
    by (simp add: init_def first_score_def in_True_False_def trunc_def example_world_def)
  have d: "distinct (map fst [(''first_score'', first_score)])" by simp
  have m: "(''first_score'', first_score) \<in> set [(''first_score'', first_score)]" by simp
  have b: "self_available_metrics
        \<lparr> available_metrics = Map.empty, train_evaluations = [], test_evaluations = [] \<rparr>
        example_evaluator ''first_score'' = None"
    by (simp add: self_available_metrics_def)
  from conjunct1[OF custom_metrics_shared[OF i d m]]
  have a: "self_available_metrics example_world example_evaluator ''first_score'' = Some first_score"
    by simp
  from i b generate_evaluations_first_unknown[OF b] a example_generate show ?thesis
    by simp
qed

end
